theory Spec2Isabelle
  imports Main
begin

section \<open>The command-line entry point of cfgenerator (cmd/cfgenerator/main.go)\<close>

text \<open>
  The file \<^verbatim>\<open>main.go\<close> holds three functions: \<^verbatim>\<open>stringsFlag.Set\<close>, \<^verbatim>\<open>main\<close> and
  \<^verbatim>\<open>run\<close>. \<^verbatim>\<open>run\<close> is a straight line of calls into the operating system and into the
  packages \<^verbatim>\<open>interpreter\<close>, \<^verbatim>\<open>file\<close> and \<^verbatim>\<open>internal\<close>. Each of these calls is a field of the
  record \<open>sys\<close> below: a function from the state of the outside world to a result and a
  new state of the world. The model of \<^verbatim>\<open>run\<close> threads the world through the calls in
  the order of the source and records every call in a trace.
\<close>

subsection \<open>Data\<close>

type_synonym path = string

text \<open>A Go \<^verbatim>\<open>error\<close> is represented by its message; \<^verbatim>\<open>nil\<close> is \<open>None\<close>.\<close>

type_synonym err = string

text \<open>
  The calls \<^verbatim>\<open>run\<close> makes. \<open>'w\<close> is the state of the world (file system and streams),
  \<open>'h\<close> the type of open files (\<^verbatim>\<open>*os.File\<close>), \<open>'r\<close> the type of interpreters.
  \<^verbatim>\<open>interpreter.Get\<close> returns \<^verbatim>\<open>(runtime, found)\<close>: \<open>None\<close> stands for \<^verbatim>\<open>found = false\<close>.
  It is a lookup in a table fixed at start-up (section 4.1 of the specification), so it
  neither reads nor changes the world. \<^verbatim>\<open>fmt.Fprint\<close> returns the number of bytes
  written and an error. The three packages are not among the sources at hand: their
  functions are parameters here, and every theorem about \<^verbatim>\<open>run\<close> and \<^verbatim>\<open>main\<close> holds
  for all of their behaviours.
\<close>

record ('w, 'h, 'r) sys =
  interpreter_Get :: "string \<Rightarrow> 'r option"
  file_OpenInput :: "path \<Rightarrow> 'w \<Rightarrow> (err + 'h) \<times> 'w"
  internal_Generate :: "'r \<Rightarrow> 'h \<Rightarrow> path list \<Rightarrow> 'w \<Rightarrow> (err + string) \<times> 'w"
  file_OpenOutput :: "path \<Rightarrow> 'w \<Rightarrow> (err + 'h) \<times> 'w"
  fmt_Fprint :: "'h \<Rightarrow> string \<Rightarrow> 'w \<Rightarrow> (nat \<times> err option) \<times> 'w"
  File_Close :: "'h \<Rightarrow> 'w \<Rightarrow> err option \<times> 'w"

text \<open>One event per call, with the arguments and the result that the caller sees.\<close>

datatype 'h event =
    EvOpenInput path "err + 'h"
  | EvGenerate 'h "path list" "err + string"
  | EvOpenOutput path "err + 'h"
  | EvFprint 'h string "nat \<times> err option"
  | EvClose 'h
  | EvStderr string

record ('w, 'h) state =
  world :: 'w
  trace :: "'h event list"

definition start :: "'w \<Rightarrow> ('w, 'h) state" where
  "start w = \<lparr>world = w, trace = []\<rparr>"

subsection \<open>The calls, recorded\<close>

definition call_OpenInput ::
  "('w, 'h, 'r) sys \<Rightarrow> path \<Rightarrow> ('w, 'h) state \<Rightarrow> (err + 'h) \<times> ('w, 'h) state" where
  "call_OpenInput sys inputPath s =
     (case file_OpenInput sys inputPath (world s) of
        (r, w) \<Rightarrow> (r, \<lparr>world = w, trace = trace s @ [EvOpenInput inputPath r]\<rparr>))"

definition call_Generate ::
  "('w, 'h, 'r) sys \<Rightarrow> 'r \<Rightarrow> 'h \<Rightarrow> path list \<Rightarrow> ('w, 'h) state
     \<Rightarrow> (err + string) \<times> ('w, 'h) state" where
  "call_Generate sys runtime input volumes s =
     (case internal_Generate sys runtime input volumes (world s) of
        (r, w) \<Rightarrow> (r, \<lparr>world = w, trace = trace s @ [EvGenerate input volumes r]\<rparr>))"

definition call_OpenOutput ::
  "('w, 'h, 'r) sys \<Rightarrow> path \<Rightarrow> ('w, 'h) state \<Rightarrow> (err + 'h) \<times> ('w, 'h) state" where
  "call_OpenOutput sys outputPath s =
     (case file_OpenOutput sys outputPath (world s) of
        (r, w) \<Rightarrow> (r, \<lparr>world = w, trace = trace s @ [EvOpenOutput outputPath r]\<rparr>))"

definition call_Fprint ::
  "('w, 'h, 'r) sys \<Rightarrow> 'h \<Rightarrow> string \<Rightarrow> ('w, 'h) state
     \<Rightarrow> (nat \<times> err option) \<times> ('w, 'h) state" where
  "call_Fprint sys output content s =
     (case fmt_Fprint sys output content (world s) of
        (r, w) \<Rightarrow> (r, \<lparr>world = w, trace = trace s @ [EvFprint output content r]\<rparr>))"

definition call_Close ::
  "('w, 'h, 'r) sys \<Rightarrow> 'h \<Rightarrow> ('w, 'h) state \<Rightarrow> err option \<times> ('w, 'h) state" where
  "call_Close sys f s =
     (case File_Close sys f (world s) of
        (r, w) \<Rightarrow> (r, \<lparr>world = w, trace = trace s @ [EvClose f]\<rparr>))"

subsection \<open>\<^verbatim>\<open>run\<close>\<close>

text \<open>The \<^verbatim>\<open>'%s'\<close> of the three error formats.\<close>

definition quoted :: "string \<Rightarrow> string" where
  "quoted x = [CHR 0x27] @ x @ [CHR 0x27]"

text \<open>
  The deferred calls of \<^verbatim>\<open>run\<close> are \<^verbatim>\<open>Close\<close> calls only, and their results are dropped.
  \<open>run_deferred\<close> runs a stack of them, top first.
\<close>

fun run_deferred :: "('w, 'h, 'r) sys \<Rightarrow> 'h list \<Rightarrow> ('w, 'h) state \<Rightarrow> ('w, 'h) state" where
  "run_deferred sys [] s = s"
| "run_deferred sys (f # fs) s = run_deferred sys fs (snd (call_Close sys f s))"

text \<open>
  The first loop of \<^verbatim>\<open>run\<close> (lines 145 to 153). \<open>outputs\<close> holds the files opened so
  far, in the order of \<^verbatim>\<open>outputPaths\<close>: the filled prefix of the array \<^verbatim>\<open>outputs\<close>, which
  is also the list of files with a deferred \<^verbatim>\<open>Close\<close>. The loop returns at the first
  path that \<^verbatim>\<open>file.OpenOutput\<close> fails on.
\<close>

fun open_outputs ::
  "('w, 'h, 'r) sys \<Rightarrow> path list \<Rightarrow> 'h list \<Rightarrow> ('w, 'h) state
     \<Rightarrow> err option \<times> 'h list \<times> ('w, 'h) state" where
  "open_outputs sys [] outputs s = (None, outputs, s)"
| "open_outputs sys (outputPath # rest) outputs s =
     (case call_OpenOutput sys outputPath s of
        (Inl err, s') \<Rightarrow>
          (Some (''can't open output file '' @ quoted outputPath @ '': '' @ err), outputs, s')
      | (Inr output, s') \<Rightarrow> open_outputs sys rest (outputs @ [output]) s')"

text \<open>The second loop (lines 155 to 157): the result of \<^verbatim>\<open>fmt.Fprint\<close> is dropped.\<close>

fun write_outputs ::
  "('w, 'h, 'r) sys \<Rightarrow> 'h list \<Rightarrow> string \<Rightarrow> ('w, 'h) state \<Rightarrow> ('w, 'h) state" where
  "write_outputs sys [] content s = s"
| "write_outputs sys (output # rest) content s =
     write_outputs sys rest content (snd (call_Fprint sys output content s))"

text \<open>
  \<^verbatim>\<open>run\<close> returns an \<^verbatim>\<open>error\<close>. The deferred calls run when it returns, last deferred
  first: the outputs in the reverse of the order they were opened in, then the input.
\<close>

definition run ::
  "('w, 'h, 'r) sys \<Rightarrow> string \<Rightarrow> path \<Rightarrow> path list \<Rightarrow> path list \<Rightarrow> ('w, 'h) state
     \<Rightarrow> err option \<times> ('w, 'h) state" where
  "run sys interpreterName inputPath outputPaths volumes s =
     (case interpreter_Get sys interpreterName of
        None \<Rightarrow> (Some (''unsupported interpreter '' @ quoted interpreterName), s)
      | Some runtime \<Rightarrow>
          (case call_OpenInput sys inputPath s of
             (Inl err, s1) \<Rightarrow>
               (Some (''can't open input file '' @ quoted inputPath @ '': '' @ err), s1)
           | (Inr input, s1) \<Rightarrow>
               (case call_Generate sys runtime input volumes s1 of
                  (Inl err, s2) \<Rightarrow>
                    (Some (''can't generate content: '' @ err), run_deferred sys [input] s2)
                | (Inr content, s2) \<Rightarrow>
                    (case open_outputs sys outputPaths [] s2 of
                       (Some e, outputs, s3) \<Rightarrow>
                         (Some e, run_deferred sys (rev outputs @ [input]) s3)
                     | (None, outputs, s3) \<Rightarrow>
                         (None, run_deferred sys (rev outputs @ [input])
                                  (write_outputs sys outputs content s3))))))"

text \<open>
  What the calls of \<^verbatim>\<open>fmt.Fprint\<close> of the second loop return, in order, when the loop
  starts in the world \<open>w\<close>: \<^verbatim>\<open>run\<close> drops these results, the function keeps them.
\<close>

fun write_results ::
  "('w, 'h, 'r) sys \<Rightarrow> 'h list \<Rightarrow> string \<Rightarrow> 'w \<Rightarrow> (nat \<times> err option) list" where
  "write_results sys [] content w = []"
| "write_results sys (output # rest) content w =
     fst (fmt_Fprint sys output content w)
       # write_results sys rest content (snd (fmt_Fprint sys output content w))"

subsection \<open>\<^verbatim>\<open>stringsFlag\<close> and \<^verbatim>\<open>main\<close>\<close>

record config =
  InterpreterName :: string
  In :: string
  Outs :: "string list"

text \<open>\<^verbatim>\<open>stringsFlag.Set\<close>: appends and returns \<^verbatim>\<open>nil\<close>.\<close>

definition stringsFlag_Set :: "string list \<Rightarrow> string \<Rightarrow> string list \<times> err option" where
  "stringsFlag_Set s v = (s @ [v], None)"

text \<open>
  \<^verbatim>\<open>main\<close> registers three flags and calls \<^verbatim>\<open>flag.Parse\<close>. The command line is taken as
  the standard library's \<^verbatim>\<open>flag\<close> package has cut it: the occurrences of the three
  registered flags, in order, and the positional arguments that follow them. For each
  occurrence the package calls the \<^verbatim>\<open>Set\<close> method of the flag's value: a string
  variable is overwritten, a \<^verbatim>\<open>stringsFlag\<close> goes through \<^verbatim>\<open>stringsFlag.Set\<close>.
\<close>

datatype flagArg = FlagInterpreter string | FlagIn string | FlagOut string

fun flag_Set :: "flagArg \<Rightarrow> config \<Rightarrow> config" where
  "flag_Set (FlagInterpreter v) cfg = cfg\<lparr>InterpreterName := v\<rparr>"
| "flag_Set (FlagIn v) cfg = cfg\<lparr>In := v\<rparr>"
| "flag_Set (FlagOut v) cfg = cfg\<lparr>Outs := fst (stringsFlag_Set (Outs cfg) v)\<rparr>"

fun flag_Parse :: "flagArg list \<Rightarrow> config \<Rightarrow> config" where
  "flag_Parse [] cfg = cfg"
| "flag_Parse (a # as) cfg = flag_Parse as (flag_Set a cfg)"

text \<open>Lines 101 to 119 of \<^verbatim>\<open>main\<close>: the configuration that \<^verbatim>\<open>run\<close> is called with.\<close>

definition main_config :: "flagArg list \<Rightarrow> config" where
  "main_config flags =
     (let cfg = flag_Parse flags \<lparr>InterpreterName = ''jsonnet'', In = ''-'', Outs = []\<rparr>
      in if length (Outs cfg) = 0 then cfg\<lparr>Outs := Outs cfg @ [''-'']\<rparr> else cfg)"

text \<open>
  \<^verbatim>\<open>main\<close> returns the exit code of the process: 1 after printing the error of \<^verbatim>\<open>run\<close>
  on standard error, 0 when \<^verbatim>\<open>run\<close> returns \<^verbatim>\<open>nil\<close>.
\<close>

definition main ::
  "('w, 'h, 'r) sys \<Rightarrow> flagArg list \<Rightarrow> path list \<Rightarrow> ('w, 'h) state \<Rightarrow> nat \<times> ('w, 'h) state" where
  "main sys flags args s =
     (let cfg = main_config flags
      in case run sys (InterpreterName cfg) (In cfg) (Outs cfg) args s of
           (Some err, s') \<Rightarrow> (1, s'\<lparr>trace := trace s' @ [EvStderr (err @ [CHR 0x0A])]\<rparr>)
         | (None, s') \<Rightarrow> (0, s'))"

text \<open>The values of the \<^verbatim>\<open>-out\<close> occurrences of a command line, in order.\<close>

fun out_values :: "flagArg list \<Rightarrow> string list" where
  "out_values [] = []"
| "out_values (FlagOut v # as) = v # out_values as"
| "out_values (_ # as) = out_values as"

subsection \<open>What a trace shows\<close>

text \<open>The calls of \<^verbatim>\<open>file.OpenOutput\<close> in a trace, with their results, in order.\<close>

fun opens :: "'h event list \<Rightarrow> (path \<times> (err + 'h)) list" where
  "opens [] = []"
| "opens (EvOpenOutput p r # es) = (p, r) # opens es"
| "opens (_ # es) = opens es"

text \<open>The calls of \<^verbatim>\<open>fmt.Fprint\<close> in a trace: the file and the text, in order.\<close>

fun writes :: "'h event list \<Rightarrow> ('h \<times> string) list" where
  "writes [] = []"
| "writes (EvFprint h c r # es) = (h, c) # writes es"
| "writes (_ # es) = writes es"

text \<open>The events of opening the paths \<open>ps\<close> with success, the files being \<open>hs\<close>.\<close>

definition opened_events :: "path list \<Rightarrow> 'h list \<Rightarrow> 'h event list" where
  "opened_events ps hs = map2 (\<lambda>p h. EvOpenOutput p (Inr h)) ps hs"

text \<open>The events of printing \<open>content\<close> to the files \<open>hs\<close>, the results being \<open>rs\<close>.\<close>

definition written_events :: "'h list \<Rightarrow> string \<Rightarrow> (nat \<times> err option) list \<Rightarrow> 'h event list" where
  "written_events hs content rs = map2 (\<lambda>h r. EvFprint h content r) hs rs"

section \<open>The volume collector\<close>

text \<open>
  The package \<^verbatim>\<open>internal\<close>, which holds the volume collector, is not among the sources at
  hand. Its model follows section 4.2 of the specification.
\<close>

text \<open>
  A direct entry of a directory is a regular file with its content, or something else
  (a sub-directory). A volume path leads to a regular file or to a directory with its
  direct entries in the order they are listed.
\<close>

datatype entry = RegularFile string | SubDirectory

datatype node = File string | Directory "(string \<times> entry) list"

type_synonym filesystem = "path \<Rightarrow> node option"

type_synonym variables = "string \<Rightarrow> string option"

text \<open>
  Modelled from the spec: step 4 of the algorithm of the collector, whose code is missing.
  Every entry of a directory that is a regular file is inserted under its name; the
  others are skipped.
\<close>

fun insert_entries :: "(string \<times> entry) list \<Rightarrow> variables \<Rightarrow> variables" where
  "insert_entries [] m = m"
| "insert_entries ((name, RegularFile content) # es) m = insert_entries es (m(name \<mapsto> content))"
| "insert_entries ((name, SubDirectory) # es) m = insert_entries es m"

text \<open>
  Modelled from the spec: the loop of \<^verbatim>\<open>Collect\<close> over the paths, whose code is missing
  (steps 1 to 4). \<open>stat\<close> is the file system, \<open>None\<close> for a path that does not exist or
  cannot be accessed; \<open>baseName\<close> gives the base name of a path.
\<close>

fun Collect_from ::
  "(path \<Rightarrow> string) \<Rightarrow> filesystem \<Rightarrow> path list \<Rightarrow> variables \<Rightarrow> err + variables" where
  "Collect_from baseName stat [] m = Inr m"
| "Collect_from baseName stat (p # ps) m =
     (case stat p of
        None \<Rightarrow> Inl (''stat '' @ p @ '': no such file or directory'')
      | Some (File content) \<Rightarrow> Collect_from baseName stat ps (m(baseName p \<mapsto> content))
      | Some (Directory es) \<Rightarrow> Collect_from baseName stat ps (insert_entries es m))"

text \<open>
  Modelled from the spec: \<^verbatim>\<open>Collect(paths)\<close>, whose code is missing. The mapping starts
  empty.
\<close>

definition Collect :: "(path \<Rightarrow> string) \<Rightarrow> filesystem \<Rightarrow> path list \<Rightarrow> err + variables" where
  "Collect baseName stat paths = Collect_from baseName stat paths Map.empty"

text \<open>
  The (name, content) pairs that one path gives, in the order the collector meets them,
  and those of a list of paths.
\<close>

fun file_entries :: "(string \<times> entry) list \<Rightarrow> (string \<times> string) list" where
  "file_entries [] = []"
| "file_entries ((name, RegularFile content) # es) = (name, content) # file_entries es"
| "file_entries ((name, SubDirectory) # es) = file_entries es"

definition path_entries :: "(path \<Rightarrow> string) \<Rightarrow> filesystem \<Rightarrow> path \<Rightarrow> (string \<times> string) list" where
  "path_entries baseName stat p =
     (case stat p of
        None \<Rightarrow> []
      | Some (File content) \<Rightarrow> [(baseName p, content)]
      | Some (Directory es) \<Rightarrow> file_entries es)"

definition encountered ::
  "(path \<Rightarrow> string) \<Rightarrow> filesystem \<Rightarrow> path list \<Rightarrow> (string \<times> string) list" where
  "encountered baseName stat paths = concat (map (path_entries baseName stat) paths)"

text \<open>
  \<^verbatim>\<open>filepath.Base\<close> of the Go standard library on a system whose separator is the slash:
  the last element of the path, trailing slashes removed first; \<^verbatim>\<open>.\<close> for the empty
  path and \<^verbatim>\<open>/\<close> for a path of slashes only.
\<close>

definition filepath_Base :: "path \<Rightarrow> string" where
  "filepath_Base p =
     (if p = [] then ''.''
      else let stripped = rev (dropWhile (\<lambda>c. c = CHR ''/'') (rev p));
               element = rev (takeWhile (\<lambda>c. c \<noteq> CHR ''/'') (rev stripped))
           in if element = [] then ''/'' else element)"

text \<open>
  An example of volumes: the directory \<^verbatim>\<open>/a\<close> with the files \<^verbatim>\<open>PORT\<close> and \<^verbatim>\<open>HOST\<close> and
  a sub-directory, and the file \<^verbatim>\<open>/b/PORT\<close>.
\<close>

definition example_volumes :: filesystem where
  "example_volumes p =
     (if p = ''/a'' then
        Some (Directory [(''PORT'', RegularFile ''8080''), (''sub'', SubDirectory),
                         (''HOST'', RegularFile ''localhost'')])
      else if p = ''/b/PORT'' then Some (File ''9090'')
      else None)"

section \<open>An example environment\<close>

text \<open>
  A small world to run the program in: a disk (a map from paths to contents), the text
  waiting on standard input and the text printed on standard output. It serves the
  concrete runs that accompany the theorems; the theorems hold for every environment.
\<close>

record disk =
  files :: "path \<Rightarrow> string option"
  stdin :: string
  stdout :: string

datatype handle = Stdin | Stdout | OnDisk path

datatype interp = Plain | Jsonnet

text \<open>
  In this world the registry knows \<^verbatim>\<open>plain\<close> and \<^verbatim>\<open>jsonnet\<close>; the path \<^verbatim>\<open>-\<close> is a
  standard stream; opening a missing input fails; generation fails on a missing volume
  path and otherwise gives the input text back; opening an output creates or empties the
  file, and fails on the empty path; printing appends, and fails on \<^verbatim>\<open>/dev/full\<close> and on
  standard input; closing does nothing.
\<close>

definition example_sys :: "(disk, handle, interp) sys" where
  "example_sys = \<lparr>
     interpreter_Get = (\<lambda>name.
       if name = ''plain'' then Some Plain
       else if name = ''jsonnet'' then Some Jsonnet else None),
     file_OpenInput = (\<lambda>p d.
       if p = ''-'' then (Inr Stdin, d)
       else (case files d p of
               None \<Rightarrow> (Inl (''open '' @ p @ '': no such file or directory''), d)
             | Some _ \<Rightarrow> (Inr (OnDisk p), d))),
     internal_Generate = (\<lambda>runtime input volumes d.
       case find (\<lambda>v. files d v = None) volumes of
         Some v \<Rightarrow> (Inl (''stat '' @ v @ '': no such file or directory''), d)
       | None \<Rightarrow>
           (Inr (case input of
                   Stdin \<Rightarrow> stdin d
                 | Stdout \<Rightarrow> []
                 | OnDisk p \<Rightarrow> (case files d p of None \<Rightarrow> [] | Some text \<Rightarrow> text)), d)),
     file_OpenOutput = (\<lambda>p d.
       if p = ''-'' then (Inr Stdout, d)
       else if p = [] then (Inl ''open : no such file or directory'', d)
       else (Inr (OnDisk p), d\<lparr>files := (files d)(p \<mapsto> [])\<rparr>)),
     fmt_Fprint = (\<lambda>h content d.
       case h of
         Stdin \<Rightarrow> ((0, Some ''write /dev/stdin: bad file descriptor''), d)
       | Stdout \<Rightarrow> ((length content, None), d\<lparr>stdout := stdout d @ content\<rparr>)
       | OnDisk p \<Rightarrow>
           if p = ''/dev/full'' then ((0, Some ''write /dev/full: no space left on device''), d)
           else ((length content, None),
                 d\<lparr>files := (files d)(p \<mapsto> (case files d p of None \<Rightarrow> [] | Some text \<Rightarrow> text)
                                                   @ content)\<rparr>)),
     File_Close = (\<lambda>h d. (None, d))
   \<rparr>"

definition disk0 :: disk where
  "disk0 = \<lparr>files = [''cfg.json'' \<mapsto> ''old'', ''vol'' \<mapsto> ''8080'', ''in.tpl'' \<mapsto> ''{port}''],
            stdin = ''{}'', stdout = []\<rparr>"


text \<open>A printer that fails on every file, whatever the text.\<close>

definition io_error :: "handle \<Rightarrow> string \<Rightarrow> disk \<Rightarrow> (nat \<times> err option) \<times> disk" where
  "io_error h content d = ((0, Some ''input/output error''), d)"

section \<open>Traces of the loops and of \<^verbatim>\<open>run\<close>\<close>

lemma opens_append: "opens (xs @ ys) = opens xs @ opens ys"
  by (induction xs rule: opens.induct) simp_all

lemma writes_append: "writes (xs @ ys) = writes xs @ writes ys"
  by (induction xs rule: writes.induct) simp_all

lemma trace_call_Close: "trace (snd (call_Close sys f s)) = trace s @ [EvClose f]"
  by (simp add: call_Close_def split: prod.splits)

lemma trace_run_deferred: "trace (run_deferred sys fs s) = trace s @ map EvClose fs"
  by (induction fs arbitrary: s) (simp_all add: trace_call_Close)

lemma trace_call_Fprint:
  "trace (snd (call_Fprint sys h c s)) = trace s @ [EvFprint h c (fst (call_Fprint sys h c s))]"
  by (simp add: call_Fprint_def split: prod.splits)

lemma trace_write_outputs:
  "\<exists>rs. length rs = length hs \<and>
        trace (write_outputs sys hs c s) = trace s @ map2 (\<lambda>h r. EvFprint h c r) hs rs"
proof (induction hs arbitrary: s)
  case Nil
  show ?case by simp
next
  case (Cons h hs)
  obtain rs where rs: "length rs = length hs"
    "trace (write_outputs sys hs c (snd (call_Fprint sys h c s))) =
       trace (snd (call_Fprint sys h c s)) @ map2 (\<lambda>h r. EvFprint h c r) hs rs"
    using Cons.IH by blast
  let ?r = "fst (call_Fprint sys h c s)"
  have "length (?r # rs) = length (h # hs)" using rs(1) by simp
  moreover have "trace (write_outputs sys (h # hs) c s) =
      trace s @ map2 (\<lambda>h r. EvFprint h c r) (h # hs) (?r # rs)"
    using rs(2) by (simp add: trace_call_Fprint)
  ultimately show ?case by blast
qed

lemma open_outputs_None:
  "open_outputs sys ps outs s = (None, outs', s') \<Longrightarrow>
     \<exists>hs. outs' = outs @ hs \<and> length hs = length ps \<and>
          trace s' = trace s @ map2 (\<lambda>p h. EvOpenOutput p (Inr h)) ps hs"
proof (induction ps arbitrary: outs s)
  case Nil
  then show ?case by simp
next
  case (Cons p ps)
  obtain r s1 where c: "call_OpenOutput sys p s = (r, s1)" by (cases "call_OpenOutput sys p s")
  show ?case
  proof (cases r)
    case (Inl e)
    with c Cons.prems show ?thesis by simp
  next
    case (Inr h)
    with c Cons.prems have "open_outputs sys ps (outs @ [h]) s1 = (None, outs', s')" by simp
    from Cons.IH[OF this] obtain hs where hs: "outs' = (outs @ [h]) @ hs" "length hs = length ps"
      "trace s' = trace s1 @ map2 (\<lambda>p h. EvOpenOutput p (Inr h)) ps hs" by blast
    have t: "trace s1 = trace s @ [EvOpenOutput p (Inr h)]"
      using c Inr by (auto simp: call_OpenOutput_def split: prod.splits)
    have "outs' = outs @ (h # hs)" using hs(1) by simp
    moreover have "length (h # hs) = length (p # ps)" using hs(2) by simp
    moreover have "trace s' = trace s @ map2 (\<lambda>p h. EvOpenOutput p (Inr h)) (p # ps) (h # hs)"
      using hs(3) t by simp
    ultimately show ?thesis by blast
  qed
qed

lemma open_outputs_Some:
  "open_outputs sys ps outs s = (Some e, outs', s') \<Longrightarrow>
     \<exists>hs err. outs' = outs @ hs \<and> length hs < length ps \<and>
          e = ''can't open output file '' @ quoted (ps ! length hs) @ '': '' @ err \<and>
          trace s' = trace s @ map2 (\<lambda>p h. EvOpenOutput p (Inr h)) (take (length hs) ps) hs
                       @ [EvOpenOutput (ps ! length hs) (Inl err)]"
proof (induction ps arbitrary: outs s)
  case Nil
  then show ?case by simp
next
  case (Cons p ps)
  obtain r s1 where c: "call_OpenOutput sys p s = (r, s1)" by (cases "call_OpenOutput sys p s")
  show ?case
  proof (cases r)
    case (Inl err)
    have t: "trace s1 = trace s @ [EvOpenOutput p (Inl err)]"
      using c Inl by (auto simp: call_OpenOutput_def split: prod.splits)
    from c Inl Cons.prems have "outs' = outs @ []" "s' = s1"
      "e = ''can't open output file '' @ quoted p @ '': '' @ err" by simp_all
    with t show ?thesis by (intro exI[of _ "[]"] exI[of _ err]) simp
  next
    case (Inr h)
    with c Cons.prems have "open_outputs sys ps (outs @ [h]) s1 = (Some e, outs', s')" by simp
    from Cons.IH[OF this] obtain hs err where hs: "outs' = (outs @ [h]) @ hs" "length hs < length ps"
      "e = ''can't open output file '' @ quoted (ps ! length hs) @ '': '' @ err"
      "trace s' = trace s1 @ map2 (\<lambda>p h. EvOpenOutput p (Inr h)) (take (length hs) ps) hs
                       @ [EvOpenOutput (ps ! length hs) (Inl err)]" by blast
    have t: "trace s1 = trace s @ [EvOpenOutput p (Inr h)]"
      using c Inr by (auto simp: call_OpenOutput_def split: prod.splits)
    show ?thesis
      using hs t by (intro exI[of _ "h # hs"] exI[of _ err]) simp
  qed
qed

lemma run_unsupported:
  "interpreter_Get sys n = None \<Longrightarrow>
     run sys n i ops vs s = (Some (''unsupported interpreter '' @ quoted n), s)"
  by (simp add: run_def)

lemma run_input_failure:
  "interpreter_Get sys n = Some runtime \<Longrightarrow> call_OpenInput sys i s = (Inl e, s1) \<Longrightarrow>
     run sys n i ops vs s = (Some (''can't open input file '' @ quoted i @ '': '' @ e), s1)"
  by (simp add: run_def)

lemma run_generate_failure:
  "interpreter_Get sys n = Some runtime \<Longrightarrow> call_OpenInput sys i s = (Inr input, s1) \<Longrightarrow>
   call_Generate sys runtime input vs s1 = (Inl e, s2) \<Longrightarrow>
     run sys n i ops vs s = (Some (''can't generate content: '' @ e), run_deferred sys [input] s2)"
  by (simp add: run_def)

lemma run_output_failure:
  "interpreter_Get sys n = Some runtime \<Longrightarrow> call_OpenInput sys i s = (Inr input, s1) \<Longrightarrow>
   call_Generate sys runtime input vs s1 = (Inr content, s2) \<Longrightarrow>
   open_outputs sys ops [] s2 = (Some e, outputs, s3) \<Longrightarrow>
     run sys n i ops vs s = (Some e, run_deferred sys (rev outputs @ [input]) s3)"
  by (simp add: run_def)

lemma run_success:
  "interpreter_Get sys n = Some runtime \<Longrightarrow> call_OpenInput sys i s = (Inr input, s1) \<Longrightarrow>
   call_Generate sys runtime input vs s1 = (Inr content, s2) \<Longrightarrow>
   open_outputs sys ops [] s2 = (None, outputs, s3) \<Longrightarrow>
     run sys n i ops vs s =
       (None, run_deferred sys (rev outputs @ [input]) (write_outputs sys outputs content s3))"
  by (simp add: run_def)

lemma trace_call_OpenInput:
  "call_OpenInput sys i s = (r, s1) \<Longrightarrow> trace s1 = trace s @ [EvOpenInput i r]"
  by (auto simp: call_OpenInput_def split: prod.splits)

lemma trace_call_Generate:
  "call_Generate sys runtime input vs s = (r, s1) \<Longrightarrow> trace s1 = trace s @ [EvGenerate input vs r]"
  by (auto simp: call_Generate_def split: prod.splits)

text \<open>The five ways through \<^verbatim>\<open>run\<close>, each with its result and its trace.\<close>

lemma run_shape:
  fixes sys :: "('w, 'h, 'r) sys" and n i ops vs s
  defines "R \<equiv> run sys n i ops vs s"
  shows
  "(interpreter_Get sys n = None \<and> R = (Some (''unsupported interpreter '' @ quoted n), s))
   \<or> (\<exists>e. fst R = Some (''can't open input file '' @ quoted i @ '': '' @ e) \<and>
          trace (snd R) = trace s @ [EvOpenInput i (Inl e)])
   \<or> (\<exists>input e. fst R = Some (''can't generate content: '' @ e) \<and>
          trace (snd R) = trace s @ [EvOpenInput i (Inr input), EvGenerate input vs (Inl e),
                                     EvClose input])
   \<or> (\<exists>input content hs e. length hs < length ops \<and>
          fst R = Some (''can't open output file '' @ quoted (ops ! length hs) @ '': '' @ e) \<and>
          trace (snd R) = trace s @ [EvOpenInput i (Inr input), EvGenerate input vs (Inr content)]
             @ opened_events (take (length hs) ops) hs
             @ [EvOpenOutput (ops ! length hs) (Inl e)]
             @ map EvClose (rev hs) @ [EvClose input])
   \<or> (\<exists>input content hs rs. length hs = length ops \<and> length rs = length ops \<and>
          fst R = None \<and>
          trace (snd R) = trace s @ [EvOpenInput i (Inr input), EvGenerate input vs (Inr content)]
             @ opened_events ops hs @ written_events hs content rs
             @ map EvClose (rev hs) @ [EvClose input])"
proof (cases "interpreter_Get sys n")
  case None
  then show ?thesis unfolding R_def by (simp add: run_unsupported)
next
  case (Some runtime)
  obtain r1 s1 where o: "call_OpenInput sys i s = (r1, s1)" by (cases "call_OpenInput sys i s")
  note t1 = trace_call_OpenInput[OF o]
  show ?thesis
  proof (cases r1)
    case (Inl e)
    have "R = (Some (''can't open input file '' @ quoted i @ '': '' @ e), s1)"
      unfolding R_def using Some o Inl by (simp add: run_input_failure)
    then show ?thesis using t1 Inl by simp
  next
    case (Inr input)
    obtain r2 s2 where g: "call_Generate sys runtime input vs s1 = (r2, s2)"
      by (cases "call_Generate sys runtime input vs s1")
    note t2 = trace_call_Generate[OF g]
    show ?thesis
    proof (cases r2)
      case (Inl e)
      have "R = (Some (''can't generate content: '' @ e), run_deferred sys [input] s2)"
        unfolding R_def using Some o Inr g Inl by (simp add: run_generate_failure)
      then have "fst R = Some (''can't generate content: '' @ e)"
        "trace (snd R) = trace s @ [EvOpenInput i (Inr input), EvGenerate input vs (Inl e),
                                     EvClose input]"
        using t1 t2 Inr Inl by (simp_all add: trace_run_deferred del: run_deferred.simps)
      then show ?thesis by blast
    next
      case content: (Inr content)
      obtain r3 outputs s3 where p: "open_outputs sys ops [] s2 = (r3, outputs, s3)"
        by (cases "open_outputs sys ops [] s2")
      show ?thesis
      proof (cases r3)
        case None
        from open_outputs_None[OF p[unfolded None]]
        have len: "length outputs = length ops"
          and t3: "trace s3 = trace s2 @ opened_events ops outputs"
          by (auto simp: opened_events_def)
        obtain rs where rs: "length rs = length outputs"
          "trace (write_outputs sys outputs content s3) =
             trace s3 @ written_events outputs content rs"
          using trace_write_outputs[of outputs sys content s3] by (auto simp: written_events_def)
        have "R = (None, run_deferred sys (rev outputs @ [input])
                           (write_outputs sys outputs content s3))"
          unfolding R_def using Some o Inr g content p None by (simp add: run_success)
        then have "fst R = None"
          "trace (snd R) = trace s @ [EvOpenInput i (Inr input), EvGenerate input vs (Inr content)]
             @ opened_events ops outputs @ written_events outputs content rs
             @ map EvClose (rev outputs) @ [EvClose input]"
          using t1 t2 t3 rs(2) Inr content by (simp_all add: trace_run_deferred del: run_deferred.simps)
        with len rs(1) show ?thesis by metis
      next
        case (Some e)
        from open_outputs_Some[OF p[unfolded Some]]
        obtain err where len: "length outputs < length ops"
          and e: "e = ''can't open output file '' @ quoted (ops ! length outputs) @ '': '' @ err"
          and t3: "trace s3 = trace s2 @ opened_events (take (length outputs) ops) outputs
                       @ [EvOpenOutput (ops ! length outputs) (Inl err)]"
          by (auto simp: opened_events_def)
        have "R = (Some e, run_deferred sys (rev outputs @ [input]) s3)"
          unfolding R_def using \<open>interpreter_Get sys n = Some runtime\<close> o Inr g content p Some
          by (simp add: run_output_failure)
        then have "fst R = Some (''can't open output file '' @ quoted (ops ! length outputs) @ '': '' @ err)"
          "trace (snd R) = trace s @ [EvOpenInput i (Inr input), EvGenerate input vs (Inr content)]
             @ opened_events (take (length outputs) ops) outputs
             @ [EvOpenOutput (ops ! length outputs) (Inl err)]
             @ map EvClose (rev outputs) @ [EvClose input]"
          using t1 t2 t3 e Inr content by (simp_all add: trace_run_deferred del: run_deferred.simps)
        with len show ?thesis by blast
      qed
    qed
  qed
qed

lemma opens_opened_events: "opens (opened_events ps hs) = zip ps (map Inr hs)"
  unfolding opened_events_def by (induction ps hs rule: list_induct2') simp_all

lemma writes_opened_events: "writes (opened_events ps hs) = []"
  unfolding opened_events_def by (induction ps hs rule: list_induct2') simp_all

lemma opens_written_events: "opens (written_events hs c rs) = []"
  unfolding written_events_def by (induction hs rs rule: list_induct2') simp_all

lemma writes_written_events:
  "length rs = length hs \<Longrightarrow> writes (written_events hs c rs) = map (\<lambda>h. (h, c)) hs"
  by (induction rs hs rule: list_induct2) (simp_all add: written_events_def)

lemma opens_closes: "opens (map EvClose hs) = []"
  by (induction hs) simp_all

lemma writes_closes: "writes (map EvClose hs) = []"
  by (induction hs) simp_all

lemma main_of_run:
  "main_config flags = \<lparr>InterpreterName = n, In = i, Outs = ops\<rparr> \<Longrightarrow>
     main sys flags args s =
       (case run sys n i ops args s of
          (Some e, s') \<Rightarrow> (1, s'\<lparr>trace := trace s' @ [EvStderr (e @ [CHR 0x0A])]\<rparr>)
        | (None, s') \<Rightarrow> (0, s'))"
  by (simp add: main_def)

lemma main_failure:
  assumes "main_config flags = \<lparr>InterpreterName = n, In = i, Outs = ops\<rparr>"
    and "fst (run sys n i ops args s) = Some e"
  shows "fst (main sys flags args s) = 1"
    and "trace (snd (main sys flags args s)) =
           trace (snd (run sys n i ops args s)) @ [EvStderr (e @ [CHR 0x0A])]"
    and "world (snd (main sys flags args s)) = world (snd (run sys n i ops args s))"
  using assms(2) unfolding main_of_run[OF assms(1)]
  by (cases "run sys n i ops args s"; simp)+

lemma main_success:
  assumes "main_config flags = \<lparr>InterpreterName = n, In = i, Outs = ops\<rparr>"
    and "fst (run sys n i ops args s) = None"
  shows "main sys flags args s = (0, snd (run sys n i ops args s))"
  using assms(2) unfolding main_of_run[OF assms(1)]
  by (cases "run sys n i ops args s") simp

lemmas example_simps = example_sys_def disk0_def start_def call_OpenInput_def call_Generate_def
  call_OpenOutput_def call_Fprint_def call_Close_def

lemma trace_start: "trace (start w) = []"
  by (simp add: start_def)


lemma failed_open_not_in_opened:
  "EvOpenOutput p (Inl e) \<notin> set (opened_events ps hs)"
  by (auto simp: opened_events_def dest: in_set_zipE)

lemma failed_open_not_in_written:
  "EvOpenOutput p (Inl e) \<notin> set (written_events hs c rs)"
  by (auto simp: written_events_def)

lemma failed_open_shape:
  assumes "EvOpenOutput p (Inl e) \<in> set (trace (snd (run sys n i ops vs (start w))))"
  shows "\<exists>input content hs. length hs < length ops \<and> p = ops ! length hs \<and>
          fst (run sys n i ops vs (start w)) =
            Some (''can't open output file '' @ quoted p @ '': '' @ e) \<and>
          trace (snd (run sys n i ops vs (start w))) =
            [EvOpenInput i (Inr input), EvGenerate input vs (Inr content)]
             @ opened_events (take (length hs) ops) hs
             @ [EvOpenOutput p (Inl e)]
             @ map EvClose (rev hs) @ [EvClose input]"
proof -
  let ?R = "run sys n i ops vs (start w)"
  let ?ev = "EvOpenOutput p (Inl e)"
  consider
    (unsupported) "?R = (Some (''unsupported interpreter '' @ quoted n), start w)"
  | (infail) e' where "trace (snd ?R) = [EvOpenInput i (Inl e')]"
  | (genfail) inp e' where
      "trace (snd ?R) = [EvOpenInput i (Inr inp), EvGenerate inp vs (Inl e'), EvClose inp]"
  | (outfail) inp content hs e' where "length hs < length ops"
      and "fst ?R = Some (''can't open output file '' @ quoted (ops ! length hs) @ '': '' @ e')"
      and "trace (snd ?R) = [EvOpenInput i (Inr inp), EvGenerate inp vs (Inr content)]
             @ opened_events (take (length hs) ops) hs
             @ [EvOpenOutput (ops ! length hs) (Inl e')]
             @ map EvClose (rev hs) @ [EvClose inp]"
  | (success) inp content hs rs where
      "trace (snd ?R) = [EvOpenInput i (Inr inp), EvGenerate inp vs (Inr content)]
             @ opened_events ops hs @ written_events hs content rs
             @ map EvClose (rev hs) @ [EvClose inp]"
    using run_shape[of sys n i ops vs "start w"] unfolding trace_start by auto
  then show ?thesis
  proof cases
    case unsupported
    with assms show ?thesis by (simp add: trace_start)
  next
    case infail
    with assms show ?thesis by simp
  next
    case genfail
    with assms show ?thesis by simp
  next
    case (outfail inp content hs e')
    from assms have "p = ops ! length hs \<and> e = e'"
      unfolding outfail(3)
      by (auto simp: failed_open_not_in_opened)
    with outfail show ?thesis by blast
  next
    case success
    with assms show ?thesis
      by (auto simp: failed_open_not_in_opened failed_open_not_in_written)
  qed
qed


lemma call_OpenInput_printer:
  "call_OpenInput (sys\<lparr>fmt_Fprint := printer\<rparr>) = call_OpenInput sys"
  by (simp add: call_OpenInput_def fun_eq_iff)

lemma call_Generate_printer:
  "call_Generate (sys\<lparr>fmt_Fprint := printer\<rparr>) = call_Generate sys"
  by (simp add: call_Generate_def fun_eq_iff)

lemma call_OpenOutput_printer:
  "call_OpenOutput (sys\<lparr>fmt_Fprint := printer\<rparr>) = call_OpenOutput sys"
  by (simp add: call_OpenOutput_def fun_eq_iff)

lemma open_outputs_printer:
  "open_outputs (sys\<lparr>fmt_Fprint := printer\<rparr>) ps outs s = open_outputs sys ps outs s"
  by (induction ps arbitrary: outs s)
     (simp_all add: call_OpenOutput_printer split: prod.splits sum.splits)

lemma run_success_any_printer:
  assumes "interpreter_Get sys n = Some runtime"
    and "call_OpenInput sys i s = (Inr input, s1)"
    and "call_Generate sys runtime input vs s1 = (Inr content, s2)"
    and "open_outputs sys ops [] s2 = (None, outputs, s3)"
  shows "run (sys\<lparr>fmt_Fprint := printer\<rparr>) n i ops vs s =
           (None, run_deferred (sys\<lparr>fmt_Fprint := printer\<rparr>) (rev outputs @ [input])
                    (write_outputs (sys\<lparr>fmt_Fprint := printer\<rparr>) outputs content s3))"
  by (rule run_success[where runtime = runtime and ?s1.0 = s1 and ?s2.0 = s2])
     (simp_all add: assms call_OpenInput_printer call_Generate_printer open_outputs_printer)

lemma Outs_flag_Parse: "Outs (flag_Parse flags cfg) = Outs cfg @ out_values flags"
  by (induction flags arbitrary: cfg rule: out_values.induct)
     (simp_all add: stringsFlag_Set_def)

lemma InterpreterName_flag_Parse:
  "\<forall>v. FlagInterpreter v \<notin> set flags \<Longrightarrow>
     InterpreterName (flag_Parse flags cfg) = InterpreterName cfg"
proof (induction flags arbitrary: cfg)
  case Nil
  show ?case by simp
next
  case (Cons a flags)
  then show ?case by (cases a) auto
qed

lemma In_flag_Parse:
  "\<forall>v. FlagIn v \<notin> set flags \<Longrightarrow> In (flag_Parse flags cfg) = In cfg"
proof (induction flags arbitrary: cfg)
  case Nil
  show ?case by simp
next
  case (Cons a flags)
  then show ?case by (cases a) auto
qed

lemma out_values_absent: "\<forall>v. FlagOut v \<notin> set flags \<Longrightarrow> out_values flags = []"
  by (induction flags rule: out_values.induct) auto

lemma Outs_main_config:
  "Outs (main_config flags) = (if out_values flags = [] then [''-''] else out_values flags)"
  by (simp add: main_config_def Let_def Outs_flag_Parse)

subsection \<open>The collector as a list of insertions\<close>

lemma map_upd_add: "m(k \<mapsto> v) ++ g = m ++ ([k \<mapsto> v] ++ g)"
  by (rule ext) (simp add: map_add_def split: option.split)

lemma insert_entries_eq: "insert_entries es m = m ++ map_of (rev (file_entries es))"
proof (induction es m rule: insert_entries.induct)
  case (1 m)
  show ?case by simp
next
  case (2 name content es m)
  have "insert_entries ((name, RegularFile content) # es) m =
        insert_entries es (m(name \<mapsto> content))"
    by simp
  also have "\<dots> = m(name \<mapsto> content) ++ map_of (rev (file_entries es))"
    by (rule 2)
  also have "\<dots> = m ++ ([name \<mapsto> content] ++ map_of (rev (file_entries es)))"
    by (rule map_upd_add)
  also have "\<dots> = m ++ map_of (rev (file_entries ((name, RegularFile content) # es)))"
    by simp
  finally show ?case .
next
  case (3 name es m)
  then show ?case by simp
qed

lemma Collect_from_eq:
  "\<forall>p\<in>set ps. stat p \<noteq> None \<Longrightarrow>
     Collect_from baseName stat ps m = Inr (m ++ map_of (rev (encountered baseName stat ps)))"
proof (induction ps arbitrary: m)
  case Nil
  show ?case by (simp add: encountered_def)
next
  case (Cons p ps)
  from Cons.prems obtain nd where nd: "stat p = Some nd" by auto
  have rest: "\<forall>q\<in>set ps. stat q \<noteq> None" using Cons.prems by simp
  note IH = Cons.IH[OF rest]
  let ?rest = "map_of (rev (encountered baseName stat ps))"
  have enc: "map_of (rev (encountered baseName stat (p # ps))) =
               map_of (rev (path_entries baseName stat p)) ++ ?rest"
    by (simp add: encountered_def)
  show ?case
  proof (cases nd)
    case (File content)
    have "Collect_from baseName stat (p # ps) m =
          Collect_from baseName stat ps (m(baseName p \<mapsto> content))"
      using nd File by simp
    also have "\<dots> = Inr (m(baseName p \<mapsto> content) ++ ?rest)"
      by (rule IH)
    also have "m(baseName p \<mapsto> content) ++ ?rest = m ++ ([baseName p \<mapsto> content] ++ ?rest)"
      by (rule map_upd_add)
    also have "[baseName p \<mapsto> content] ++ ?rest =
               map_of (rev (encountered baseName stat (p # ps)))"
      unfolding enc using nd File by (simp add: path_entries_def)
    finally show ?thesis .
  next
    case (Directory es)
    have "Collect_from baseName stat (p # ps) m =
          Collect_from baseName stat ps (insert_entries es m)"
      using nd Directory by simp
    also have "\<dots> = Inr (insert_entries es m ++ ?rest)"
      by (rule IH)
    also have "insert_entries es m ++ ?rest = m ++ (map_of (rev (file_entries es)) ++ ?rest)"
      by (simp add: insert_entries_eq)
    also have "map_of (rev (file_entries es)) ++ ?rest =
               map_of (rev (encountered baseName stat (p # ps)))"
      unfolding enc using nd Directory by (simp add: path_entries_def)
    finally show ?thesis .
  qed
qed

lemma Collect_eq:
  "\<forall>p\<in>set paths. stat p \<noteq> None \<Longrightarrow>
     Collect baseName stat paths = Inr (map_of (rev (encountered baseName stat paths)))"
  by (simp add: Collect_def Collect_from_eq)

subsection \<open>The world after a run that succeeds\<close>

lemma run_None_stages:
  assumes "fst (run sys n i ops vs s) = None"
  shows "\<exists>runtime input s1 content s2 outputs s3.
           interpreter_Get sys n = Some runtime
         \<and> call_OpenInput sys i s = (Inr input, s1)
         \<and> call_Generate sys runtime input vs s1 = (Inr content, s2)
         \<and> open_outputs sys ops [] s2 = (None, outputs, s3)"
proof (cases "interpreter_Get sys n")
  case None
  with assms show ?thesis by (simp add: run_unsupported)
next
  case (Some runtime)
  obtain r1 s1 where o: "call_OpenInput sys i s = (r1, s1)" by (cases "call_OpenInput sys i s")
  show ?thesis
  proof (cases r1)
    case (Inl e)
    with assms Some o show ?thesis by (simp add: run_input_failure)
  next
    case (Inr input)
    obtain r2 s2 where g: "call_Generate sys runtime input vs s1 = (r2, s2)"
      by (cases "call_Generate sys runtime input vs s1")
    show ?thesis
    proof (cases r2)
      case (Inl e)
      with assms Some o Inr g show ?thesis by (simp add: run_generate_failure)
    next
      case content: (Inr content)
      obtain r3 outputs s3 where p: "open_outputs sys ops [] s2 = (r3, outputs, s3)"
        by (cases "open_outputs sys ops [] s2")
      show ?thesis
      proof (cases r3)
        case None
        with Some o Inr g content p show ?thesis by blast
      next
        case e: (Some e)
        from run_output_failure[OF Some o[unfolded Inr] g[unfolded content] p[unfolded e]] assms
        show ?thesis by simp
      qed
    qed
  qed
qed

lemma world_call_Close: "world (snd (call_Close sys f s)) = snd (File_Close sys f (world s))"
  by (simp add: call_Close_def split: prod.splits)

lemma world_run_deferred:
  "world (run_deferred sys fs s) = foldl (\<lambda>w f. snd (File_Close sys f w)) (world s) fs"
  by (induction fs arbitrary: s) (simp_all add: world_call_Close)

lemma world_call_Fprint:
  "world (snd (call_Fprint sys h c s)) = snd (fmt_Fprint sys h c (world s))"
  by (simp add: call_Fprint_def split: prod.splits)

lemma fst_call_Fprint:
  "fst (call_Fprint sys h c s) = fst (fmt_Fprint sys h c (world s))"
  by (simp add: call_Fprint_def split: prod.splits)

lemma world_write_outputs:
  "world (write_outputs sys hs c s) = foldl (\<lambda>w h. snd (fmt_Fprint sys h c w)) (world s) hs"
  by (induction hs arbitrary: s) (simp_all add: world_call_Fprint)

lemma length_write_results: "length (write_results sys hs c w) = length hs"
  by (induction hs arbitrary: w) simp_all

lemma trace_write_outputs_results:
  "trace (write_outputs sys hs c s) =
     trace s @ written_events hs c (write_results sys hs c (world s))"
  by (induction hs arbitrary: s)
     (simp_all add: written_events_def trace_call_Fprint fst_call_Fprint world_call_Fprint)




lemma successful_run_facts:
  assumes "interpreter_Get sys n = Some runtime"
    and "call_OpenInput sys i (start w) = (Inr input, s1)"
    and "call_Generate sys runtime input vs s1 = (Inr content, s2)"
    and "open_outputs sys ops [] s2 = (None, outputs, s3)"
  shows "length outputs = length ops"
    and "trace (snd (run sys n i ops vs (start w))) =
           [EvOpenInput i (Inr input), EvGenerate input vs (Inr content)]
            @ opened_events ops outputs
            @ written_events outputs content (write_results sys outputs content (world s3))
            @ map EvClose (rev outputs) @ [EvClose input]"
    and "opens (trace (snd (run sys n i ops vs (start w)))) = zip ops (map Inr outputs)"
    and "writes (trace (snd (run sys n i ops vs (start w)))) =
           map (\<lambda>output. (output, content)) outputs"
    and "world (snd (run sys n i ops vs (start w))) =
           foldl (\<lambda>w f. snd (File_Close sys f w))
             (foldl (\<lambda>w output. snd (fmt_Fprint sys output content w)) (world s3) outputs)
             (rev outputs @ [input])"
proof -
  let ?R = "run sys n i ops vs (start w)"
  let ?rs = "write_results sys outputs content (world s3)"
  from open_outputs_None[OF assms(4)]
  have len: "length outputs = length ops"
    and t3: "trace s3 = trace s2 @ opened_events ops outputs"
    by (auto simp: opened_events_def)
  show "length outputs = length ops" by (rule len)
  have t2: "trace s2 = [EvOpenInput i (Inr input), EvGenerate input vs (Inr content)]"
    using trace_call_OpenInput[OF assms(2)] trace_call_Generate[OF assms(3)]
    by (simp add: trace_start)
  have r: "?R = (None, run_deferred sys (rev outputs @ [input])
                         (write_outputs sys outputs content s3))"
    by (rule run_success[OF assms])
  show t: "trace (snd ?R) =
           [EvOpenInput i (Inr input), EvGenerate input vs (Inr content)]
            @ opened_events ops outputs @ written_events outputs content ?rs
            @ map EvClose (rev outputs) @ [EvClose input]"
    by (simp add: r trace_run_deferred trace_write_outputs_results t3 t2
             del: run_deferred.simps)
  show "opens (trace (snd ?R)) = zip ops (map Inr outputs)"
    by (simp add: t opens_append opens_opened_events opens_written_events opens_closes)
  show "writes (trace (snd ?R)) = map (\<lambda>output. (output, content)) outputs"
    by (simp add: t writes_append writes_opened_events writes_written_events writes_closes
                  length_write_results)
  show "world (snd ?R) =
           foldl (\<lambda>w f. snd (File_Close sys f w))
             (foldl (\<lambda>w output. snd (fmt_Fprint sys output content w)) (world s3) outputs)
             (rev outputs @ [input])"
    by (simp add: r world_run_deferred world_write_outputs del: run_deferred.simps)
qed





section \<open>The claims\<close>

text \<open>
  Claim C3. For every interpreter name that the registry does not know, \<^verbatim>\<open>run\<close> fails
  with the error \<^verbatim>\<open>unsupported interpreter '<name>'\<close> before any file is touched: the
  state it returns is the state it was given, with no call recorded (the input path is
  not opened, no volume path is accessed) and the world unchanged. \<^verbatim>\<open>main\<close> then prints
  the error on standard error and exits with code 1.
\<close>

theorem unknown_interpreter_fails_before_io:
  assumes "interpreter_Get sys interpreterName = None"
  shows "run sys interpreterName inputPath outputPaths volumes s =
           (Some (''unsupported interpreter '' @ quoted interpreterName), s)
         \<and> (\<forall>flags. main_config flags =
               \<lparr>InterpreterName = interpreterName, In = inputPath, Outs = outputPaths\<rparr> \<longrightarrow>
             main sys flags volumes s =
               (1, s\<lparr>trace := trace s @
                     [EvStderr (''unsupported interpreter '' @ quoted interpreterName @ [CHR 0x0A])]\<rparr>))"
proof -
  have r: "run sys interpreterName inputPath outputPaths volumes s =
             (Some (''unsupported interpreter '' @ quoted interpreterName), s)"
    using assms by (simp add: run_def)
  show ?thesis
  proof (intro conjI allI impI)
    show "run sys interpreterName inputPath outputPaths volumes s =
            (Some (''unsupported interpreter '' @ quoted interpreterName), s)"
      by (rule r)
  next
    fix flags
    assume "main_config flags =
              \<lparr>InterpreterName = interpreterName, In = inputPath, Outs = outputPaths\<rparr>"
    then show "main sys flags volumes s =
       (1, s\<lparr>trace := trace s @
             [EvStderr (''unsupported interpreter '' @ quoted interpreterName @ [CHR 0x0A])]\<rparr>)"
      by (simp add: main_of_run r)
  qed
qed

theorem unknown_interpreter_fails_before_io_witness:
  "interpreter_Get example_sys ''yaml'' = None
   \<and> run example_sys ''yaml'' ''in.tpl'' [''cfg.json''] [''vol''] (start disk0) =
       (Some (''unsupported interpreter '' @ quoted ''yaml''), start disk0)
   \<and> main example_sys [FlagInterpreter ''yaml'', FlagIn ''in.tpl'', FlagOut ''cfg.json''] [''vol'']
        (start disk0) =
       (1, \<lparr>world = disk0, trace = [EvStderr (''unsupported interpreter '' @ quoted ''yaml'' @ [CHR 0x0A])]\<rparr>)"
proof -
  have h: "interpreter_Get example_sys ''yaml'' = None"
    by (simp add: example_sys_def)
  have c: "main_config [FlagInterpreter ''yaml'', FlagIn ''in.tpl'', FlagOut ''cfg.json''] =
             \<lparr>InterpreterName = ''yaml'', In = ''in.tpl'', Outs = [''cfg.json'']\<rparr>"
    by (simp add: main_config_def stringsFlag_Set_def)
  from unknown_interpreter_fails_before_io[OF h, of "''in.tpl''" "[''cfg.json'']" "[''vol'']" "start disk0"] c h
  show ?thesis by (simp add: start_def)
qed

text \<open>
  Claim C1. In every run in which \<^verbatim>\<open>internal.Generate\<close> returns an error (a failure of
  the volume collection or of the render step), \<^verbatim>\<open>run\<close> returns the error
  \<^verbatim>\<open>can't generate content: <cause>\<close>, which names the failing step, and its calls are
  exactly: open the input, generate, close the input. No output destination is opened
  and nothing is printed to one. \<^verbatim>\<open>main\<close> prints the error on standard error and the
  process exits with code 1.
\<close>

theorem generation_failure_opens_no_output:
  assumes "interpreter_Get sys interpreterName = Some runtime"
    and "call_OpenInput sys inputPath (start w) = (Inr input, s1)"
    and "call_Generate sys runtime input volumes s1 = (Inl e, s2)"
  shows "run sys interpreterName inputPath outputPaths volumes (start w) =
           (Some (''can't generate content: '' @ e), snd (call_Close sys input s2))
       \<and> trace (snd (run sys interpreterName inputPath outputPaths volumes (start w))) =
           [EvOpenInput inputPath (Inr input), EvGenerate input volumes (Inl e), EvClose input]
       \<and> opens (trace (snd (run sys interpreterName inputPath outputPaths volumes (start w)))) = []
       \<and> writes (trace (snd (run sys interpreterName inputPath outputPaths volumes (start w)))) = []
       \<and> (\<forall>flags. main_config flags =
              \<lparr>InterpreterName = interpreterName, In = inputPath, Outs = outputPaths\<rparr> \<longrightarrow>
            fst (main sys flags volumes (start w)) = 1 \<and>
            trace (snd (main sys flags volumes (start w))) =
              [EvOpenInput inputPath (Inr input), EvGenerate input volumes (Inl e), EvClose input,
               EvStderr (''can't generate content: '' @ e @ [CHR 0x0A])])"
proof -
  let ?R = "run sys interpreterName inputPath outputPaths volumes (start w)"
  have r: "?R = (Some (''can't generate content: '' @ e), snd (call_Close sys input s2))"
    using run_generate_failure[OF assms] by simp
  have t: "trace (snd ?R) =
             [EvOpenInput inputPath (Inr input), EvGenerate input volumes (Inl e), EvClose input]"
    using trace_call_OpenInput[OF assms(2)] trace_call_Generate[OF assms(3)]
    by (simp add: r trace_call_Close trace_start)
  have m: "fst (main sys flags volumes (start w)) = 1 \<and>
           trace (snd (main sys flags volumes (start w))) =
              [EvOpenInput inputPath (Inr input), EvGenerate input volumes (Inl e), EvClose input,
               EvStderr (''can't generate content: '' @ e @ [CHR 0x0A])]"
    if "main_config flags =
          \<lparr>InterpreterName = interpreterName, In = inputPath, Outs = outputPaths\<rparr>" for flags
    using main_failure(1,2)[OF that, of sys volumes "start w" "''can't generate content: '' @ e"] t
    by (simp add: r)
  from r t m show ?thesis by simp
qed

theorem generation_failure_opens_no_output_witness:
  "fst (main example_sys [FlagOut ''cfg.json''] [''nope''] (start disk0)) = 1
   \<and> trace (snd (main example_sys [FlagOut ''cfg.json''] [''nope''] (start disk0))) =
       [EvOpenInput ''-'' (Inr Stdin),
        EvGenerate Stdin [''nope''] (Inl ''stat nope: no such file or directory''),
        EvClose Stdin,
        EvStderr (''can't generate content: stat nope: no such file or directory'' @ [CHR 0x0A])]
   \<and> opens (trace (snd (run example_sys ''jsonnet'' ''-'' [''cfg.json''] [''nope''] (start disk0)))) = []
   \<and> files (world (snd (run example_sys ''jsonnet'' ''-'' [''cfg.json''] [''nope''] (start disk0))))
        ''cfg.json'' = Some ''old''"
proof -
  let ?s1 = "\<lparr>world = disk0, trace = [EvOpenInput ''-'' (Inr Stdin)]\<rparr>"
  let ?e = "''stat nope: no such file or directory''"
  let ?s2 = "\<lparr>world = disk0, trace = [EvOpenInput ''-'' (Inr Stdin), EvGenerate Stdin [''nope''] (Inl ?e)]\<rparr>"
  have h1: "interpreter_Get example_sys ''jsonnet'' = Some Jsonnet"
    by (simp add: example_sys_def)
  have h2: "call_OpenInput example_sys ''-'' (start disk0) = (Inr Stdin, ?s1)"
    by (simp add: example_simps)
  have h3: "call_Generate example_sys Jsonnet Stdin [''nope''] ?s1 = (Inl ?e, ?s2)"
    by (simp add: example_simps)
  have c: "main_config [FlagOut ''cfg.json''] =
             \<lparr>InterpreterName = ''jsonnet'', In = ''-'', Outs = [''cfg.json'']\<rparr>"
    by (simp add: main_config_def stringsFlag_Set_def)
  have f: "files (world (snd (call_Close example_sys Stdin ?s2))) ''cfg.json'' = Some ''old''"
    by (simp add: example_simps)
  note T = generation_failure_opens_no_output[OF h1 h2 h3, of "[''cfg.json'']"]
  from T have r: "run example_sys ''jsonnet'' ''-'' [''cfg.json''] [''nope''] (start disk0) =
      (Some (''can't generate content: '' @ ?e), snd (call_Close example_sys Stdin ?s2))"
    by (rule conjunct1)
  from T have o: "opens (trace (snd (run example_sys ''jsonnet'' ''-'' [''cfg.json''] [''nope''] (start disk0)))) = []"
    by blast
  from T c have m: "fst (main example_sys [FlagOut ''cfg.json''] [''nope''] (start disk0)) = 1 \<and>
      trace (snd (main example_sys [FlagOut ''cfg.json''] [''nope''] (start disk0))) =
       [EvOpenInput ''-'' (Inr Stdin), EvGenerate Stdin [''nope''] (Inl ?e), EvClose Stdin,
        EvStderr (''can't generate content: '' @ ?e @ [CHR 0x0A])]"
    by blast
  from m o f show ?thesis by (simp add: r)
qed



text \<open>
  Claim C10. When opening the output destination of index \<open>i\<close> fails, the destinations
  before it have all been opened with success, in order; they are then closed, in the
  reverse order, and the input after them, and \<^verbatim>\<open>fmt.Fprint\<close> is never called. Whatever
  \<^verbatim>\<open>file.OpenOutput\<close> does to an earlier destination when it opens it has therefore
  happened, although no content goes to any output: in the example environment, where
  opening creates or empties the file, the earlier file is left empty.
\<close>

theorem failed_open_leaves_earlier_outputs_opened:
  assumes "EvOpenOutput p (Inl e) \<in>
             set (trace (snd (run sys interpreterName inputPath outputPaths volumes (start w))))"
  shows "\<exists>input content outputs.
           length outputs < length outputPaths \<and> p = outputPaths ! length outputs
         \<and> trace (snd (run sys interpreterName inputPath outputPaths volumes (start w))) =
             [EvOpenInput inputPath (Inr input), EvGenerate input volumes (Inr content)]
              @ opened_events (take (length outputs) outputPaths) outputs
              @ [EvOpenOutput p (Inl e)]
              @ map EvClose (rev outputs) @ [EvClose input]
         \<and> opens (trace (snd (run sys interpreterName inputPath outputPaths volumes (start w)))) =
             zip (take (length outputs) outputPaths) (map Inr outputs) @ [(p, Inl e)]
         \<and> writes (trace (snd (run sys interpreterName inputPath outputPaths volumes (start w)))) = []"
proof -
  from failed_open_shape[OF assms] obtain input content hs where
    len: "length hs < length outputPaths" "p = outputPaths ! length hs" and
    t: "trace (snd (run sys interpreterName inputPath outputPaths volumes (start w))) =
            [EvOpenInput inputPath (Inr input), EvGenerate input volumes (Inr content)]
             @ opened_events (take (length hs) outputPaths) hs
             @ [EvOpenOutput p (Inl e)]
             @ map EvClose (rev hs) @ [EvClose input]"
    by blast
  have o: "opens (trace (snd (run sys interpreterName inputPath outputPaths volumes (start w)))) =
             zip (take (length hs) outputPaths) (map Inr hs) @ [(p, Inl e)]"
    by (simp add: t opens_append opens_opened_events opens_closes)
  have wr: "writes (trace (snd (run sys interpreterName inputPath outputPaths volumes (start w)))) = []"
    by (simp add: t writes_append writes_opened_events writes_closes)
  from len t o wr show ?thesis by blast
qed

theorem failed_open_leaves_earlier_outputs_opened_witness:
  "EvOpenOutput [] (Inl ''open : no such file or directory'') \<in>
        set (trace (snd (run example_sys ''jsonnet'' ''-'' [''cfg.json'', []] [''vol''] (start disk0))))
   \<and> (\<exists>input content outputs.
           length outputs < length [''cfg.json'', []] \<and> [] = [''cfg.json'', []] ! length outputs
         \<and> trace (snd (run example_sys ''jsonnet'' ''-'' [''cfg.json'', []] [''vol''] (start disk0))) =
             [EvOpenInput ''-'' (Inr input), EvGenerate input [''vol''] (Inr content)]
              @ opened_events (take (length outputs) [''cfg.json'', []]) outputs
              @ [EvOpenOutput [] (Inl ''open : no such file or directory'')]
              @ map EvClose (rev outputs) @ [EvClose input]
         \<and> opens (trace (snd (run example_sys ''jsonnet'' ''-'' [''cfg.json'', []] [''vol''] (start disk0)))) =
             zip (take (length outputs) [''cfg.json'', []]) (map Inr outputs)
               @ [([], Inl ''open : no such file or directory'')]
         \<and> writes (trace (snd (run example_sys ''jsonnet'' ''-'' [''cfg.json'', []] [''vol''] (start disk0)))) = [])
   \<and> trace (snd (run example_sys ''jsonnet'' ''-'' [''cfg.json'', []] [''vol''] (start disk0))) =
       [EvOpenInput ''-'' (Inr Stdin), EvGenerate Stdin [''vol''] (Inr ''{}''),
        EvOpenOutput ''cfg.json'' (Inr (OnDisk ''cfg.json'')),
        EvOpenOutput [] (Inl ''open : no such file or directory''),
        EvClose (OnDisk ''cfg.json''), EvClose Stdin]
   \<and> files disk0 ''cfg.json'' = Some ''old''
   \<and> files (world (snd (run example_sys ''jsonnet'' ''-'' [''cfg.json'', []] [''vol''] (start disk0))))
        ''cfg.json'' = Some []"
proof -
  have bad: "EvOpenOutput [] (Inl ''open : no such file or directory'') \<in>
        set (trace (snd (run example_sys ''jsonnet'' ''-'' [''cfg.json'', []] [''vol''] (start disk0))))"
    by (simp add: run_def example_simps)
  have t: "trace (snd (run example_sys ''jsonnet'' ''-'' [''cfg.json'', []] [''vol''] (start disk0))) =
       [EvOpenInput ''-'' (Inr Stdin), EvGenerate Stdin [''vol''] (Inr ''{}''),
        EvOpenOutput ''cfg.json'' (Inr (OnDisk ''cfg.json'')),
        EvOpenOutput [] (Inl ''open : no such file or directory''),
        EvClose (OnDisk ''cfg.json''), EvClose Stdin]"
    by (simp add: run_def example_simps)
  have f0: "files disk0 ''cfg.json'' = Some ''old''"
    by (simp add: disk0_def)
  have f1: "files (world (snd (run example_sys ''jsonnet'' ''-'' [''cfg.json'', []] [''vol''] (start disk0))))
        ''cfg.json'' = Some []"
    by (simp add: run_def example_simps)
  from failed_open_leaves_earlier_outputs_opened[OF bad] bad t f0 f1
  show ?thesis by blast
qed

text \<open>
  Claim C6. Once all output destinations are opened, the second loop of \<^verbatim>\<open>run\<close> calls
  \<^verbatim>\<open>fmt.Fprint\<close> on every opened file, in order, with the generated content, whatever
  the calls return and whatever they do to the world: a write that fails on one
  destination does not keep the loop from the others, and \<^verbatim>\<open>run\<close> still returns (with
  \<^verbatim>\<open>nil\<close>). The theorem holds for every behaviour of \<^verbatim>\<open>fmt.Fprint\<close>, so for every
  pattern of write failures. A process killed by the operating system during a write (a
  signal) is outside this model, in which every call returns.
\<close>

theorem write_loop_visits_every_output:
  assumes "interpreter_Get sys interpreterName = Some runtime"
    and "call_OpenInput sys inputPath (start w) = (Inr input, s1)"
    and "call_Generate sys runtime input volumes s1 = (Inr content, s2)"
    and "open_outputs sys outputPaths [] s2 = (None, outputs, s3)"
  shows "length outputs = length outputPaths
       \<and> (\<forall>printer.
            (\<exists>rs. length rs = length outputs \<and>
               trace (write_outputs (sys\<lparr>fmt_Fprint := printer\<rparr>) outputs content s3) =
                 trace s3 @ written_events outputs content rs)
          \<and> writes (trace (snd (run (sys\<lparr>fmt_Fprint := printer\<rparr>) interpreterName inputPath
                                   outputPaths volumes (start w)))) =
              map (\<lambda>output. (output, content)) outputs
          \<and> fst (run (sys\<lparr>fmt_Fprint := printer\<rparr>) interpreterName inputPath
                                   outputPaths volumes (start w)) = None)"
proof (intro conjI allI)
  from open_outputs_None[OF assms(4)]
  have len: "length outputs = length outputPaths"
    and t3: "trace s3 = trace s2 @ opened_events outputPaths outputs"
    by (auto simp: opened_events_def)
  show "length outputs = length outputPaths" by (rule len)
  fix printer
  let ?sys = "sys\<lparr>fmt_Fprint := printer\<rparr>"
  obtain rs where rs: "length rs = length outputs"
    "trace (write_outputs ?sys outputs content s3) = trace s3 @ written_events outputs content rs"
    using trace_write_outputs[of outputs ?sys content s3] by (auto simp: written_events_def)
  then show "\<exists>rs. length rs = length outputs \<and>
               trace (write_outputs ?sys outputs content s3) =
                 trace s3 @ written_events outputs content rs"
    by blast
  have t2: "trace s2 = [EvOpenInput inputPath (Inr input), EvGenerate input volumes (Inr content)]"
    using trace_call_OpenInput[OF assms(2)] trace_call_Generate[OF assms(3)]
    by (simp add: trace_start)
  have "trace (snd (run ?sys interpreterName inputPath outputPaths volumes (start w))) =
          trace s2 @ opened_events outputPaths outputs @ written_events outputs content rs
            @ map EvClose (rev outputs) @ [EvClose input]"
    by (simp add: run_success_any_printer[OF assms] trace_run_deferred rs(2) t3
             del: run_deferred.simps)
  then show "writes (trace (snd (run ?sys interpreterName inputPath outputPaths volumes (start w)))) =
              map (\<lambda>output. (output, content)) outputs"
    using rs(1)
    by (simp add: t2 writes_append writes_opened_events writes_written_events writes_closes)
  show "fst (run ?sys interpreterName inputPath outputPaths volumes (start w)) = None"
    by (simp add: run_success_any_printer[OF assms])
qed

theorem write_loop_visits_every_output_witness:
  "writes (trace (snd (run example_sys ''jsonnet'' ''-'' [''/dev/full'', ''-''] [''vol''] (start disk0)))) =
     [(OnDisk ''/dev/full'', ''{}''), (Stdout, ''{}'')]
   \<and> fst (run example_sys ''jsonnet'' ''-'' [''/dev/full'', ''-''] [''vol''] (start disk0)) = None
   \<and> trace (snd (run example_sys ''jsonnet'' ''-'' [''/dev/full'', ''-''] [''vol''] (start disk0))) =
       [EvOpenInput ''-'' (Inr Stdin), EvGenerate Stdin [''vol''] (Inr ''{}''),
        EvOpenOutput ''/dev/full'' (Inr (OnDisk ''/dev/full'')), EvOpenOutput ''-'' (Inr Stdout),
        EvFprint (OnDisk ''/dev/full'') ''{}'' (0, Some ''write /dev/full: no space left on device''),
        EvFprint Stdout ''{}'' (2, None),
        EvClose Stdout, EvClose (OnDisk ''/dev/full''), EvClose Stdin]
   \<and> stdout (world (snd (run example_sys ''jsonnet'' ''-'' [''/dev/full'', ''-''] [''vol''] (start disk0))))
       = ''{}''"
proof -
  let ?s1 = "snd (call_OpenInput example_sys ''-'' (start disk0))"
  let ?s2 = "snd (call_Generate example_sys Jsonnet Stdin [''vol''] ?s1)"
  let ?s3 = "snd (snd (open_outputs example_sys [''/dev/full'', ''-''] [] ?s2))"
  have h1: "interpreter_Get example_sys ''jsonnet'' = Some Jsonnet"
    by (simp add: example_sys_def)
  have h2: "call_OpenInput example_sys ''-'' (start disk0) = (Inr Stdin, ?s1)"
    by (simp add: example_simps)
  have h3: "call_Generate example_sys Jsonnet Stdin [''vol''] ?s1 = (Inr ''{}'', ?s2)"
    by (simp add: example_simps)
  have h4: "open_outputs example_sys [''/dev/full'', ''-''] [] ?s2 =
              (None, [OnDisk ''/dev/full'', Stdout], ?s3)"
    by (simp add: example_simps)
  have same: "example_sys\<lparr>fmt_Fprint := fmt_Fprint example_sys\<rparr> = example_sys"
    by simp
  have t: "trace (snd (run example_sys ''jsonnet'' ''-'' [''/dev/full'', ''-''] [''vol''] (start disk0))) =
       [EvOpenInput ''-'' (Inr Stdin), EvGenerate Stdin [''vol''] (Inr ''{}''),
        EvOpenOutput ''/dev/full'' (Inr (OnDisk ''/dev/full'')), EvOpenOutput ''-'' (Inr Stdout),
        EvFprint (OnDisk ''/dev/full'') ''{}'' (0, Some ''write /dev/full: no space left on device''),
        EvFprint Stdout ''{}'' (2, None),
        EvClose Stdout, EvClose (OnDisk ''/dev/full''), EvClose Stdin]"
    by (simp add: run_def example_simps)
  have o: "stdout (world (snd (run example_sys ''jsonnet'' ''-'' [''/dev/full'', ''-''] [''vol''] (start disk0))))
       = ''{}''"
    by (simp add: run_def example_simps)
  note T = write_loop_visits_every_output[OF h1 h2 h3 h4]
  from T have "writes (trace (snd (run (example_sys\<lparr>fmt_Fprint := fmt_Fprint example_sys\<rparr>) ''jsonnet'' ''-''
                    [''/dev/full'', ''-''] [''vol''] (start disk0)))) =
               map (\<lambda>output. (output, ''{}'')) [OnDisk ''/dev/full'', Stdout]
             \<and> fst (run (example_sys\<lparr>fmt_Fprint := fmt_Fprint example_sys\<rparr>) ''jsonnet'' ''-''
                    [''/dev/full'', ''-''] [''vol''] (start disk0)) = None"
    by blast
  then have "writes (trace (snd (run example_sys ''jsonnet'' ''-''
                    [''/dev/full'', ''-''] [''vol''] (start disk0)))) =
               [(OnDisk ''/dev/full'', ''{}''), (Stdout, ''{}'')]
             \<and> fst (run example_sys ''jsonnet'' ''-''
                    [''/dev/full'', ''-''] [''vol''] (start disk0)) = None"
    unfolding same by simp
  with t o show ?thesis by simp
qed

text \<open>
  Claim C9. Whenever the interpreter is found, the input is opened, the generation
  succeeds and every output is opened, \<^verbatim>\<open>run\<close> returns \<^verbatim>\<open>nil\<close> and the process exits
  with code 0, for every behaviour of \<^verbatim>\<open>fmt.Fprint\<close>: what the writes return never
  reaches the result.
\<close>

theorem write_failures_do_not_change_the_outcome:
  assumes "interpreter_Get sys interpreterName = Some runtime"
    and "call_OpenInput sys inputPath (start w) = (Inr input, s1)"
    and "call_Generate sys runtime input volumes s1 = (Inr content, s2)"
    and "open_outputs sys outputPaths [] s2 = (None, outputs, s3)"
  shows "\<forall>printer.
           fst (run (sys\<lparr>fmt_Fprint := printer\<rparr>) interpreterName inputPath outputPaths volumes
                  (start w)) = None
         \<and> (\<forall>flags. main_config flags =
               \<lparr>InterpreterName = interpreterName, In = inputPath, Outs = outputPaths\<rparr> \<longrightarrow>
              fst (main (sys\<lparr>fmt_Fprint := printer\<rparr>) flags volumes (start w)) = 0)"
proof (intro allI conjI impI)
  fix printer
  show r: "fst (run (sys\<lparr>fmt_Fprint := printer\<rparr>) interpreterName inputPath outputPaths volumes
                  (start w)) = None"
    by (simp add: run_success_any_printer[OF assms])
  fix flags
  assume "main_config flags =
               \<lparr>InterpreterName = interpreterName, In = inputPath, Outs = outputPaths\<rparr>"
  from main_success[OF this r]
  show "fst (main (sys\<lparr>fmt_Fprint := printer\<rparr>) flags volumes (start w)) = 0"
    by simp
qed

theorem write_failures_do_not_change_the_outcome_witness:
  "fst (main (example_sys\<lparr>fmt_Fprint := io_error\<rparr>) [FlagOut ''cfg.json'', FlagOut ''-''] [''vol'']
         (start disk0)) = 0
   \<and> fst (run (example_sys\<lparr>fmt_Fprint := io_error\<rparr>) ''jsonnet'' ''-'' [''cfg.json'', ''-''] [''vol'']
         (start disk0)) = None
   \<and> trace (snd (run (example_sys\<lparr>fmt_Fprint := io_error\<rparr>) ''jsonnet'' ''-'' [''cfg.json'', ''-'']
         [''vol''] (start disk0))) =
       [EvOpenInput ''-'' (Inr Stdin), EvGenerate Stdin [''vol''] (Inr ''{}''),
        EvOpenOutput ''cfg.json'' (Inr (OnDisk ''cfg.json'')), EvOpenOutput ''-'' (Inr Stdout),
        EvFprint (OnDisk ''cfg.json'') ''{}'' (0, Some ''input/output error''),
        EvFprint Stdout ''{}'' (0, Some ''input/output error''),
        EvClose Stdout, EvClose (OnDisk ''cfg.json''), EvClose Stdin]"
proof -
  let ?s1 = "snd (call_OpenInput example_sys ''-'' (start disk0))"
  let ?s2 = "snd (call_Generate example_sys Jsonnet Stdin [''vol''] ?s1)"
  let ?s3 = "snd (snd (open_outputs example_sys [''cfg.json'', ''-''] [] ?s2))"
  have h1: "interpreter_Get example_sys ''jsonnet'' = Some Jsonnet"
    by (simp add: example_sys_def)
  have h2: "call_OpenInput example_sys ''-'' (start disk0) = (Inr Stdin, ?s1)"
    by (simp add: example_simps)
  have h3: "call_Generate example_sys Jsonnet Stdin [''vol''] ?s1 = (Inr ''{}'', ?s2)"
    by (simp add: example_simps)
  have h4: "open_outputs example_sys [''cfg.json'', ''-''] [] ?s2 =
              (None, [OnDisk ''cfg.json'', Stdout], ?s3)"
    by (simp add: example_simps)
  have c: "main_config [FlagOut ''cfg.json'', FlagOut ''-''] =
             \<lparr>InterpreterName = ''jsonnet'', In = ''-'', Outs = [''cfg.json'', ''-'']\<rparr>"
    by (simp add: main_config_def stringsFlag_Set_def)
  have t: "trace (snd (run (example_sys\<lparr>fmt_Fprint := io_error\<rparr>) ''jsonnet'' ''-'' [''cfg.json'', ''-'']
         [''vol''] (start disk0))) =
       [EvOpenInput ''-'' (Inr Stdin), EvGenerate Stdin [''vol''] (Inr ''{}''),
        EvOpenOutput ''cfg.json'' (Inr (OnDisk ''cfg.json'')), EvOpenOutput ''-'' (Inr Stdout),
        EvFprint (OnDisk ''cfg.json'') ''{}'' (0, Some ''input/output error''),
        EvFprint Stdout ''{}'' (0, Some ''input/output error''),
        EvClose Stdout, EvClose (OnDisk ''cfg.json''), EvClose Stdin]"
    by (simp add: run_def example_simps io_error_def)
  note T = write_failures_do_not_change_the_outcome[OF h1 h2 h3 h4]
  from T have r: "fst (run (example_sys\<lparr>fmt_Fprint := io_error\<rparr>) ''jsonnet'' ''-''
                    [''cfg.json'', ''-''] [''vol''] (start disk0)) = None"
    by blast
  from T c have m: "fst (main (example_sys\<lparr>fmt_Fprint := io_error\<rparr>)
                    [FlagOut ''cfg.json'', FlagOut ''-''] [''vol''] (start disk0)) = 0"
    by blast
  from m r t show ?thesis by simp
qed

text \<open>
  Claim C7. The defaults of the command line: the interpreter name is \<^verbatim>\<open>jsonnet\<close> when no
  \<^verbatim>\<open>-interpreter\<close> flag is given, the input is \<^verbatim>\<open>-\<close> when no \<^verbatim>\<open>-in\<close> flag is given, and
  the outputs are the single destination \<^verbatim>\<open>-\<close> when no \<^verbatim>\<open>-out\<close> flag is given. With no
  flag at all, \<^verbatim>\<open>main\<close> calls \<^verbatim>\<open>run\<close> with exactly these three values.
\<close>

theorem cli_defaults:
  "((\<forall>v. FlagInterpreter v \<notin> set flags) \<longrightarrow> InterpreterName (main_config flags) = ''jsonnet'')
   \<and> ((\<forall>v. FlagIn v \<notin> set flags) \<longrightarrow> In (main_config flags) = ''-'')
   \<and> ((\<forall>v. FlagOut v \<notin> set flags) \<longrightarrow> Outs (main_config flags) = [''-''])
   \<and> main sys [] args s =
        (case run sys ''jsonnet'' ''-'' [''-''] args s of
           (Some e, s') \<Rightarrow> (1, s'\<lparr>trace := trace s' @ [EvStderr (e @ [CHR 0x0A])]\<rparr>)
         | (None, s') \<Rightarrow> (0, s'))"
proof (intro conjI impI)
  assume "\<forall>v. FlagInterpreter v \<notin> set flags"
  then show "InterpreterName (main_config flags) = ''jsonnet''"
    by (simp add: main_config_def Let_def InterpreterName_flag_Parse)
next
  assume "\<forall>v. FlagIn v \<notin> set flags"
  then show "In (main_config flags) = ''-''"
    by (simp add: main_config_def Let_def In_flag_Parse)
next
  assume "\<forall>v. FlagOut v \<notin> set flags"
  then show "Outs (main_config flags) = [''-'']"
    by (simp add: Outs_main_config out_values_absent)
next
  show "main sys [] args s =
        (case run sys ''jsonnet'' ''-'' [''-''] args s of
           (Some e, s') \<Rightarrow> (1, s'\<lparr>trace := trace s' @ [EvStderr (e @ [CHR 0x0A])]\<rparr>)
         | (None, s') \<Rightarrow> (0, s'))"
    by (simp add: main_def main_config_def)
qed

theorem cli_defaults_witness:
  "InterpreterName (main_config [FlagOut ''cfg.json'']) = ''jsonnet''
   \<and> In (main_config [FlagOut ''cfg.json'']) = ''-''
   \<and> Outs (main_config [FlagInterpreter ''plain'', FlagIn ''in.tpl'']) = [''-'']
   \<and> main_config [] = \<lparr>InterpreterName = ''jsonnet'', In = ''-'', Outs = [''-'']\<rparr>"
proof -
  have a: "\<forall>v. FlagInterpreter v \<notin> set [FlagOut ''cfg.json'']" by simp
  have b: "\<forall>v. FlagIn v \<notin> set [FlagOut ''cfg.json'']" by simp
  have c: "\<forall>v. FlagOut v \<notin> set [FlagInterpreter ''plain'', FlagIn ''in.tpl'']" by simp
  note T1 = cli_defaults[of "[FlagOut ''cfg.json'']" example_sys "[]" "start disk0"]
  note T2 = cli_defaults[of "[FlagInterpreter ''plain'', FlagIn ''in.tpl'']" example_sys "[]" "start disk0"]
  note T3 = cli_defaults[of "[]" example_sys "[]" "start disk0"]
  from T1 a have 1: "InterpreterName (main_config [FlagOut ''cfg.json'']) = ''jsonnet''" by blast
  from T1 b have 2: "In (main_config [FlagOut ''cfg.json'']) = ''-''" by blast
  from T2 c have 3: "Outs (main_config [FlagInterpreter ''plain'', FlagIn ''in.tpl'']) = [''-'']"
    by blast
  from T3 have "InterpreterName (main_config []) = ''jsonnet''" "In (main_config []) = ''-''"
    "Outs (main_config []) = [''-'']" by simp_all
  then have 4: "main_config [] = \<lparr>InterpreterName = ''jsonnet'', In = ''-'', Outs = [''-'']\<rparr>"
    by (cases "main_config []") simp
  from 1 2 3 4 show ?thesis by simp
qed

text \<open>
  Claim C4, on the collector as the specification describes it. For every list of volume
  paths that all exist, \<^verbatim>\<open>Collect\<close> succeeds, and the mapping it returns has exactly
  one entry for each distinct name met (its keys are the names met, as many as there are
  distinct names). When a name comes from several paths, the value of the last of these
  paths in the order given is the one kept: a later path overwrites, it is no error.
\<close>

theorem collect_one_entry_per_name_last_wins:
  assumes "\<forall>p\<in>set paths. stat p \<noteq> None"
  shows "\<exists>m. Collect baseName stat paths = Inr m
       \<and> dom m = fst ` set (encountered baseName stat paths)
       \<and> card (dom m) = length (remdups (map fst (encountered baseName stat paths)))
       \<and> (\<forall>before p after name content.
            paths = before @ p # after
            \<and> map_of (rev (path_entries baseName stat p)) name = Some content
            \<and> name \<notin> fst ` set (encountered baseName stat after)
            \<longrightarrow> m name = Some content)"
proof -
  let ?m = "map_of (rev (encountered baseName stat paths))"
  have c: "Collect baseName stat paths = Inr ?m"
    using assms by (rule Collect_eq)
  have d: "dom ?m = fst ` set (encountered baseName stat paths)"
    by (simp add: dom_map_of_conv_image_fst)
  have k: "card (dom ?m) = length (remdups (map fst (encountered baseName stat paths)))"
    unfolding d by (metis length_remdups_card_conv set_map)
  have l: "?m name = Some content"
    if "paths = before @ p # after"
      and "map_of (rev (path_entries baseName stat p)) name = Some content"
      and "name \<notin> fst ` set (encountered baseName stat after)"
    for before p after name content
  proof -
    have e: "encountered baseName stat paths =
               encountered baseName stat before @ path_entries baseName stat p
                 @ encountered baseName stat after"
      using that(1) by (simp add: encountered_def)
    have "map_of (rev (encountered baseName stat after)) name = None"
      using that(3) by (simp add: map_of_eq_None_iff)
    then show ?thesis
      using that(2) by (simp add: e map_add_def)
  qed
  from c d k l show ?thesis by blast
qed

theorem collect_one_entry_per_name_last_wins_witness:
  "(\<exists>m. Collect filepath_Base example_volumes [''/a'', ''/b/PORT''] = Inr m
       \<and> m ''PORT'' = Some ''9090'' \<and> m ''HOST'' = Some ''localhost'' \<and> m ''sub'' = None
       \<and> dom m = {''PORT'', ''HOST''} \<and> card (dom m) = 2)
   \<and> encountered filepath_Base example_volumes [''/a'', ''/b/PORT''] =
       [(''PORT'', ''8080''), (''HOST'', ''localhost''), (''PORT'', ''9090'')]"
proof -
  have h: "\<forall>p\<in>set [''/a'', ''/b/PORT'']. example_volumes p \<noteq> None"
    by (simp add: example_volumes_def)
  have b: "filepath_Base ''/b/PORT'' = ''PORT''"
    by (simp add: filepath_Base_def)
  have e: "encountered filepath_Base example_volumes [''/a'', ''/b/PORT''] =
       [(''PORT'', ''8080''), (''HOST'', ''localhost''), (''PORT'', ''9090'')]"
    by (simp add: encountered_def path_entries_def example_volumes_def b)
  have pe: "map_of (rev (path_entries filepath_Base example_volumes ''/b/PORT'')) ''PORT'' =
              Some ''9090''"
    by (simp add: path_entries_def example_volumes_def b)
  have pa: "map_of (rev (path_entries filepath_Base example_volumes ''/a'')) ''HOST'' =
              Some ''localhost''"
    by (simp add: path_entries_def example_volumes_def)
  have after1: "''PORT'' \<notin> fst ` set (encountered filepath_Base example_volumes [])"
    by (simp add: encountered_def)
  have after2: "''HOST'' \<notin> fst ` set (encountered filepath_Base example_volumes [''/b/PORT''])"
    by (simp add: encountered_def path_entries_def example_volumes_def b)
  from collect_one_entry_per_name_last_wins[OF h, of filepath_Base]
  obtain m where m: "Collect filepath_Base example_volumes [''/a'', ''/b/PORT''] = Inr m"
    and d: "dom m = fst ` set (encountered filepath_Base example_volumes [''/a'', ''/b/PORT''])"
    and k: "card (dom m) =
              length (remdups (map fst (encountered filepath_Base example_volumes [''/a'', ''/b/PORT''])))"
    and l: "\<And>before p after name content.
            [''/a'', ''/b/PORT''] = before @ p # after
            \<and> map_of (rev (path_entries filepath_Base example_volumes p)) name = Some content
            \<and> name \<notin> fst ` set (encountered filepath_Base example_volumes after)
            \<Longrightarrow> m name = Some content"
    by blast
  have 1: "m ''PORT'' = Some ''9090''"
    using l[of "[''/a'']" "''/b/PORT''" "[]" "''PORT''" "''9090''"] pe after1 by simp
  have 2: "m ''HOST'' = Some ''localhost''"
    using l[of "[]" "''/a''" "[''/b/PORT'']" "''HOST''" "''localhost''"] pa after2 by simp
  have 3: "dom m = {''PORT'', ''HOST''}"
    using d by (auto simp: e)
  have "''sub'' \<notin> dom m"
    unfolding 3 by simp
  then have 4: "m ''sub'' = None"
    by (simp add: domIff)
  have 5: "card (dom m) = 2"
    using k by (simp add: e)
  from m 1 2 3 4 5 e show ?thesis by blast
qed




text \<open>
  Claim C8. The outputs are an ordered sequence with no uniqueness constraint:
  \<^verbatim>\<open>stringsFlag.Set\<close> appends its value, so the outputs that \<^verbatim>\<open>main\<close> passes on are the
  values of the \<^verbatim>\<open>-out\<close> flags in the order given, repetitions kept; and in a run that
  succeeds every position of \<^verbatim>\<open>outputPaths\<close> has its own call of \<^verbatim>\<open>file.OpenOutput\<close> and
  its own call of \<^verbatim>\<open>fmt.Fprint\<close>, on the file that its open returned, with the content
  that \<^verbatim>\<open>internal.Generate\<close> returned in this run; the world after the run is the world
  after the opens to which these prints, one for each position, and then the closes have
  been applied.
\<close>

theorem outputs_are_an_ordered_sequence:
  "stringsFlag_Set outs v = (outs @ [v], None)
   \<and> Outs (flag_Parse flags cfg) = Outs cfg @ out_values flags
   \<and> Outs (main_config flags) = (if out_values flags = [] then [''-''] else out_values flags)
   \<and> (fst (run sys interpreterName inputPath outputPaths volumes (start w)) = None \<longrightarrow>
        (\<exists>runtime input s1 content s2 outputs s3.
           interpreter_Get sys interpreterName = Some runtime
         \<and> call_OpenInput sys inputPath (start w) = (Inr input, s1)
         \<and> call_Generate sys runtime input volumes s1 = (Inr content, s2)
         \<and> open_outputs sys outputPaths [] s2 = (None, outputs, s3)
         \<and> length outputs = length outputPaths
         \<and> length (opens (trace (snd (run sys interpreterName inputPath outputPaths volumes
                                        (start w))))) = length outputPaths
         \<and> length (writes (trace (snd (run sys interpreterName inputPath outputPaths volumes
                                        (start w))))) = length outputPaths
         \<and> (\<forall>k < length outputPaths.
               opens (trace (snd (run sys interpreterName inputPath outputPaths volumes
                                    (start w)))) ! k = (outputPaths ! k, Inr (outputs ! k))
             \<and> writes (trace (snd (run sys interpreterName inputPath outputPaths volumes
                                    (start w)))) ! k = (outputs ! k, content))
         \<and> world (snd (run sys interpreterName inputPath outputPaths volumes (start w))) =
             foldl (\<lambda>w f. snd (File_Close sys f w))
               (foldl (\<lambda>w output. snd (fmt_Fprint sys output content w)) (world s3) outputs)
               (rev outputs @ [input])))"
proof (intro conjI impI)
  show "stringsFlag_Set outs v = (outs @ [v], None)"
    by (simp add: stringsFlag_Set_def)
  show "Outs (flag_Parse flags cfg) = Outs cfg @ out_values flags"
    by (rule Outs_flag_Parse)
  show "Outs (main_config flags) = (if out_values flags = [] then [''-''] else out_values flags)"
    by (rule Outs_main_config)
  let ?R = "run sys interpreterName inputPath outputPaths volumes (start w)"
  assume "fst ?R = None"
  from run_None_stages[OF this] obtain runtime input s1 content s2 outputs s3 where
    st: "interpreter_Get sys interpreterName = Some runtime"
      "call_OpenInput sys inputPath (start w) = (Inr input, s1)"
      "call_Generate sys runtime input volumes s1 = (Inr content, s2)"
      "open_outputs sys outputPaths [] s2 = (None, outputs, s3)"
    by blast
  note f = successful_run_facts[OF st]
  have lo: "length (opens (trace (snd ?R))) = length outputPaths"
    and lw: "length (writes (trace (snd ?R))) = length outputPaths"
    using f(1) by (simp_all add: f(3) f(4))
  have each: "\<forall>k < length outputPaths.
      opens (trace (snd ?R)) ! k = (outputPaths ! k, Inr (outputs ! k)) \<and>
      writes (trace (snd ?R)) ! k = (outputs ! k, content)"
    using f(1) by (simp add: f(3) f(4))
  from st f(1) lo lw each f(5)
  show "\<exists>runtime input s1 content s2 outputs s3.
           interpreter_Get sys interpreterName = Some runtime
         \<and> call_OpenInput sys inputPath (start w) = (Inr input, s1)
         \<and> call_Generate sys runtime input volumes s1 = (Inr content, s2)
         \<and> open_outputs sys outputPaths [] s2 = (None, outputs, s3)
         \<and> length outputs = length outputPaths
         \<and> length (opens (trace (snd ?R))) = length outputPaths
         \<and> length (writes (trace (snd ?R))) = length outputPaths
         \<and> (\<forall>k < length outputPaths.
               opens (trace (snd ?R)) ! k = (outputPaths ! k, Inr (outputs ! k))
             \<and> writes (trace (snd ?R)) ! k = (outputs ! k, content))
         \<and> world (snd ?R) =
             foldl (\<lambda>w f. snd (File_Close sys f w))
               (foldl (\<lambda>w output. snd (fmt_Fprint sys output content w)) (world s3) outputs)
               (rev outputs @ [input])"
    by blast
qed

theorem outputs_are_an_ordered_sequence_witness:
  "Outs (main_config [FlagOut ''-'', FlagIn ''in.tpl'', FlagOut ''cfg.json'', FlagOut ''-'']) =
     [''-'', ''cfg.json'', ''-'']
   \<and> fst (run example_sys ''plain'' ''in.tpl'' [''-'', ''cfg.json'', ''-''] [] (start disk0)) = None
   \<and> opens (trace (snd (run example_sys ''plain'' ''in.tpl'' [''-'', ''cfg.json'', ''-''] []
                          (start disk0))))
       = [(''-'', Inr Stdout), (''cfg.json'', Inr (OnDisk ''cfg.json'')), (''-'', Inr Stdout)]
   \<and> writes (trace (snd (run example_sys ''plain'' ''in.tpl'' [''-'', ''cfg.json'', ''-''] []
                           (start disk0))))
       = [(Stdout, ''{port}''), (OnDisk ''cfg.json'', ''{port}''), (Stdout, ''{port}'')]
   \<and> stdout (world (snd (run example_sys ''plain'' ''in.tpl'' [''-'', ''cfg.json'', ''-''] []
                           (start disk0))))
       = ''{port}{port}''"
proof -
  let ?ops = "[''-'', ''cfg.json'', ''-'']"
  let ?R = "run example_sys ''plain'' ''in.tpl'' ?ops [] (start disk0)"
  note T = outputs_are_an_ordered_sequence
    [of "[]" "[]" "[FlagOut ''-'', FlagIn ''in.tpl'', FlagOut ''cfg.json'', FlagOut ''-'']"
        "\<lparr>InterpreterName = [], In = [], Outs = []\<rparr>" example_sys "''plain''" "''in.tpl''"
        ?ops "[]" disk0]
  have ok: "fst ?R = None"
    by (simp add: run_def example_simps)
  from T have 1: "Outs (main_config [FlagOut ''-'', FlagIn ''in.tpl'', FlagOut ''cfg.json'', FlagOut ''-'']) =
     ?ops"
    by simp
  from T ok obtain runtime input s1 content s2 outputs s3 where
    st: "interpreter_Get example_sys ''plain'' = Some runtime"
      "call_OpenInput example_sys ''in.tpl'' (start disk0) = (Inr input, s1)"
      "call_Generate example_sys runtime input [] s1 = (Inr content, s2)"
      "open_outputs example_sys ?ops [] s2 = (None, outputs, s3)"
    and lo: "length (opens (trace (snd ?R))) = length ?ops"
    and lw: "length (writes (trace (snd ?R))) = length ?ops"
    and each: "\<forall>k < length ?ops.
               opens (trace (snd ?R)) ! k = (?ops ! k, Inr (outputs ! k))
             \<and> writes (trace (snd ?R)) ! k = (outputs ! k, content)"
    by blast
  from st(2) have i: "input = OnDisk ''in.tpl''"
    and s1: "s1 = snd (call_OpenInput example_sys ''in.tpl'' (start disk0))"
    by (auto simp: example_simps)
  from st(3) have c: "content = ''{port}''"
    and s2: "s2 = snd (call_Generate example_sys runtime (OnDisk ''in.tpl'') []
                         (snd (call_OpenInput example_sys ''in.tpl'' (start disk0))))"
    unfolding i s1 by (auto simp: example_simps)
  from st(4) have o: "outputs = [Stdout, OnDisk ''cfg.json'', Stdout]"
    by (auto simp: s2 example_simps)
  from each have e0: "opens (trace (snd ?R)) ! 0 = (''-'', Inr Stdout)"
      "writes (trace (snd ?R)) ! 0 = (Stdout, ''{port}'')"
    and e1: "opens (trace (snd ?R)) ! Suc 0 = (''cfg.json'', Inr (OnDisk ''cfg.json''))"
      "writes (trace (snd ?R)) ! Suc 0 = (OnDisk ''cfg.json'', ''{port}'')"
    and e2: "opens (trace (snd ?R)) ! Suc (Suc 0) = (''-'', Inr Stdout)"
      "writes (trace (snd ?R)) ! Suc (Suc 0) = (Stdout, ''{port}'')"
    by (simp_all add: o c)
  have 3: "opens (trace (snd ?R)) =
      [(''-'', Inr Stdout), (''cfg.json'', Inr (OnDisk ''cfg.json'')), (''-'', Inr Stdout)]"
    using lo e0(1) e1(1) e2(1) by (intro nth_equalityI) (auto simp: less_Suc_eq numeral_3_eq_3)
  have 4: "writes (trace (snd ?R)) =
      [(Stdout, ''{port}''), (OnDisk ''cfg.json'', ''{port}''), (Stdout, ''{port}'')]"
    using lw e0(2) e1(2) e2(2) by (intro nth_equalityI) (auto simp: less_Suc_eq numeral_3_eq_3)
  have 5: "stdout (world (snd ?R)) = ''{port}{port}''"
    by (simp add: run_def example_simps)
  from 1 ok 3 4 5 show ?thesis by blast
qed

end
